theory Spec2Isabelle
  imports Complex_Main "HOL-Library.Sublist"
begin

section \<open>JavaScript string primitives\<close>

text \<open>
  The two handlers of the application, \<^verbatim>\<open>findPractitioners\<close>
  (src/ai/flows/find-practitioners.ts) and \<^verbatim>\<open>analyzeSymptoms\<close> (src/lib/ai-helpers.ts),
  work on JavaScript strings through the built-in methods \<^verbatim>\<open>toLowerCase\<close>,
  \<^verbatim>\<open>includes\<close>, \<^verbatim>\<open>split\<close> and \<^verbatim>\<open>trim\<close>, and through \<^verbatim>\<open>JSON.parse\<close>.

  A string is modelled as a \<^typ>\<open>string\<close>, each \<^typ>\<open>char\<close> standing for the UTF-16 code unit
  of the same value: the model covers every text whose code units lie in U+0000..U+00FF
  (ASCII and the Latin-1 supplement), with the built-ins defined as ECMA-262 defines them
  on such text.
\<close>

text \<open>
  \<^verbatim>\<open>String.prototype.toLowerCase\<close>: in U+0000..U+00FF the characters with a lower-case
  mapping are A..Z (U+0041..U+005A) and the Latin-1 capitals U+00C0..U+00DE without the
  multiplication sign U+00D7; each maps to the code unit 32 above it.
\<close>

definition toLowerCase_char :: "char \<Rightarrow> char" where
  "toLowerCase_char c =
     (let n = (of_char c :: nat)
      in if (65 \<le> n \<and> n \<le> 90) \<or> (192 \<le> n \<and> n \<le> 222 \<and> n \<noteq> 215)
         then char_of (n + 32) else c)"

definition toLowerCase :: "string \<Rightarrow> string" where
  "toLowerCase s = map toLowerCase_char s"

text \<open>
  \<^verbatim>\<open>s.includes(sub)\<close>: \<^verbatim>\<open>sub\<close> occurs in \<^verbatim>\<open>s\<close> as a contiguous substring, at some
  position from 0 on (the empty string occurs in every string).
\<close>

fun includes_str :: "string \<Rightarrow> string \<Rightarrow> bool" where
  "includes_str [] sub = (sub = [])"
| "includes_str (c # cs) sub = (prefix sub (c # cs) \<or> includes_str cs sub)"

text \<open>
  \<^verbatim>\<open>s.indexOf(sub)\<close>: the least position at which \<^verbatim>\<open>sub\<close> occurs in \<^verbatim>\<open>s\<close>, or
  \<^term>\<open>None\<close> for the result -1.
\<close>

fun indexOf_str :: "string \<Rightarrow> string \<Rightarrow> nat option" where
  "indexOf_str [] sub = (if sub = [] then Some 0 else None)"
| "indexOf_str (c # cs) sub =
     (if prefix sub (c # cs) then Some 0 else map_option Suc (indexOf_str cs sub))"

text \<open>
  \<^verbatim>\<open>s.split(sep)\<close> with a string separator and no limit. For a non-empty separator
  the string is cut at every occurrence of the separator, found from left to right, each
  search starting behind the previous occurrence; the result has one more element than
  there are cuts. For the empty separator the result is the list of the code units.
  \<^verbatim>\<open>split_from sep cur s\<close> is the loop: \<^verbatim>\<open>cur\<close> is the part read since the last cut.
\<close>

function split_from :: "string \<Rightarrow> string \<Rightarrow> string \<Rightarrow> string list" where
  "split_from sep cur [] = [cur]"
| "split_from sep cur (c # cs) =
     (if sep \<noteq> [] \<and> prefix sep (c # cs)
      then cur # split_from sep [] (drop (length sep) (c # cs))
      else split_from sep (cur @ [c]) cs)"
  by pat_completeness auto
termination
  by (relation "measure (\<lambda>(sep, cur, s). length s)") auto

definition split_str :: "string \<Rightarrow> string \<Rightarrow> string list" where
  "split_str s sep = (if sep = [] then map (\<lambda>c. [c]) s else split_from sep [] s)"

text \<open>
  \<^verbatim>\<open>s.trim()\<close> removes white space and line terminators from both ends. Those in
  U+0000..U+00FF are TAB, LF, VT, FF, CR, SPACE and NO-BREAK SPACE.
\<close>

definition is_js_ws :: "char \<Rightarrow> bool" where
  "is_js_ws c \<longleftrightarrow> c \<in> {CHR 0x09, CHR 0x0A, CHR 0x0B, CHR 0x0C, CHR 0x0D, CHR 0x20, CHR 0xA0}"

definition trim :: "string \<Rightarrow> string" where
  "trim s = rev (dropWhile is_js_ws (rev (dropWhile is_js_ws s)))"

section \<open>Practitioner lookup (find-practitioners.ts)\<close>

record Practitioner =
  name :: string
  specialty :: string
  address :: string
  phone :: string
  isHospital :: bool

text \<open>
  The input object; \<^verbatim>\<open>locationQuery\<close> is \<^term>\<open>None\<close> when the property is
  \<^verbatim>\<open>undefined\<close>.
\<close>

record FindPractitionersInput =
  locationQuery :: "string option"

record FindPractitionersOutput =
  practitioners :: "Practitioner list"

text \<open>The constant \<^verbatim>\<open>datasets\<close>, one list per key, in the order the source declares them.\<close>

definition datasets_dublin :: "Practitioner list" where
  "datasets_dublin =
    [\<lparr>name = ''Grand Canal Medical Clinic'',
      specialty = ''General Practitioner'',
      address = ''21 Grand Canal Street Upper, Dublin 4, D04'',
      phone = ''+353 1 555 2143'',
      isHospital = False\<rparr>,
     \<lparr>name = ''St. Stephen's Green Family Practice'',
      specialty = ''General Practitioner'',
      address = ''8 Harcourt Street, Dublin 2, D02'',
      phone = ''+353 1 555 0087'',
      isHospital = False\<rparr>,
     \<lparr>name = ''Dublin City Cardiology Centre'',
      specialty = ''Cardiology'',
      address = ''45 Gardiner Street Upper, Dublin 1, D01'',
      phone = ''+353 1 555 7321'',
      isHospital = False\<rparr>,
     \<lparr>name = ''Mater Misericordiae University Hospital'',
      specialty = ''Emergency & General Hospital'',
      address = ''Eccles St, Phibsborough, Dublin 7, D07'',
      phone = ''+353 1 803 2000'',
      isHospital = True\<rparr>]"

definition datasets_cork :: "Practitioner list" where
  "datasets_cork =
    [\<lparr>name = ''Lee Side Family Practice'',
      specialty = ''General Practitioner'',
      address = ''14 Washington Street, Cork City, T12'',
      phone = ''+353 21 555 6612'',
      isHospital = False\<rparr>,
     \<lparr>name = ''Cork Women's Health Clinic'',
      specialty = ''Women's Health'',
      address = ''3 Patrick's Quay, Cork City, T12'',
      phone = ''+353 21 555 7741'',
      isHospital = False\<rparr>,
     \<lparr>name = ''Cork University Hospital'',
      specialty = ''Emergency & General Hospital'',
      address = ''Wilton, Cork, T12'',
      phone = ''+353 21 492 2000'',
      isHospital = True\<rparr>]"

definition datasets_galway :: "Practitioner list" where
  "datasets_galway =
    [\<lparr>name = ''Eyre Square Medical Practice'',
      specialty = ''General Practitioner'',
      address = ''12 Eyre Square, Galway, H91'',
      phone = ''+353 91 555 1020'',
      isHospital = False\<rparr>,
     \<lparr>name = ''Galway Respiratory Clinic'',
      specialty = ''Respiratory Medicine'',
      address = ''College Rd, Galway, H91'',
      phone = ''+353 91 555 3344'',
      isHospital = False\<rparr>,
     \<lparr>name = ''University Hospital Galway'',
      specialty = ''Emergency & General Hospital'',
      address = ''Newcastle Rd, Galway, H91'',
      phone = ''+353 91 544 544'',
      isHospital = True\<rparr>]"

text \<open>
  \<^verbatim>\<open>input.locationQuery || 'Ireland'\<close>: the left operand when it is truthy; a string is
  falsy exactly when it is empty, and \<^verbatim>\<open>undefined\<close> is falsy.
\<close>

definition location_of :: "FindPractitionersInput \<Rightarrow> string" where
  "location_of input =
     toLowerCase (case locationQuery input of
                    None \<Rightarrow> ''Ireland''
                  | Some q \<Rightarrow> if q = [] then ''Ireland'' else q)"

text \<open>The closure \<^verbatim>\<open>pick\<close>, with the captured \<^verbatim>\<open>location\<close> as its argument.\<close>

definition pick :: "string \<Rightarrow> Practitioner list" where
  "pick location =
     (if includes_str location ''dublin'' then datasets_dublin
      else if includes_str location ''cork'' then datasets_cork
      else if includes_str location ''galway'' then datasets_galway
      else [datasets_dublin ! 0, datasets_cork ! 0, datasets_galway ! 0,
            datasets_dublin ! 2, datasets_cork ! 2])"

definition findPractitioners :: "FindPractitionersInput \<Rightarrow> FindPractitionersOutput" where
  "findPractitioners input = \<lparr>practitioners = pick (location_of input)\<rparr>"

text \<open>The call \<^verbatim>\<open>findPractitioners({ locationQuery: q })\<close> on a string \<^verbatim>\<open>q\<close>.\<close>

abbreviation find_str :: "string \<Rightarrow> Practitioner list" where
  "find_str q \<equiv> practitioners (findPractitioners \<lparr>locationQuery = Some q\<rparr>)"

text \<open>
  The default list in the specification's words, for city groups A, B and C: index 0 of A,
  index 0 of B, index 0 of C, index 2 of A and index 2 of C.
\<close>

definition specified_default :: "Practitioner list \<Rightarrow> Practitioner list \<Rightarrow> Practitioner list \<Rightarrow> Practitioner list" where
  "specified_default A B C = [A ! 0, B ! 0, C ! 0, A ! 2, C ! 2]"

section \<open>JSON.parse\<close>

text \<open>
  \<^verbatim>\<open>JSON.parse(text)\<close> without a reviver, after ECMA-262 (24.5.1) and the JSON grammar of
  ECMA-404: the text is one JSON value between optional white space (TAB, LF, CR, SPACE
  only); anything else throws a \<^verbatim>\<open>SyntaxError\<close>.

  A number is kept as its literal, since nothing in the application computes with it. A
  decoded string is a list of UTF-16 code-unit values: through the escape of the letter u
  and four hexadecimal digits it can hold units above U+00FF. An object is the list of
  its members in the order of the text; where a key is repeated the last member is the
  property's value.
\<close>

datatype js_error = Error string | SyntaxError | TypeError

datatype json =
    JNull
  | JBool bool
  | JNumber string
  | JString "nat list"
  | JArray "json list"
  | JObject "(nat list \<times> json) list"

datatype token =
    TLBrace | TRBrace | TLBracket | TRBracket | TColon | TComma
  | TString "nat list" | TNumber string | TTrue | TFalse | TNull

definition is_digit :: "char \<Rightarrow> bool" where
  "is_digit c \<longleftrightarrow> c \<in> set ''0123456789''"

definition is_json_ws :: "char \<Rightarrow> bool" where
  "is_json_ws c \<longleftrightarrow> c \<in> {CHR 0x09, CHR 0x0A, CHR 0x0D, CHR 0x20}"

subsection \<open>Strings\<close>

definition hex_value :: "char \<Rightarrow> nat option" where
  "hex_value c = map_of (zip ''0123456789abcdef'' [0 ..< 16] @ zip ''ABCDEF'' [10 ..< 16]) c"

definition hex4 :: "char \<Rightarrow> char \<Rightarrow> char \<Rightarrow> char \<Rightarrow> nat option" where
  "hex4 h1 h2 h3 h4 =
     (case (hex_value h1, hex_value h2, hex_value h3, hex_value h4) of
        (Some a, Some b, Some c, Some d) \<Rightarrow> Some (((a * 16 + b) * 16 + c) * 16 + d)
      | _ \<Rightarrow> None)"

text \<open>The single-character escapes: quotation mark, reverse solidus, solidus, b, f, n, r, t.\<close>

definition escape_value :: "char \<Rightarrow> nat option" where
  "escape_value e =
     map_of [(CHR 0x22, 34), (CHR 0x5C, 92), (CHR ''/'', 47), (CHR ''b'', 8),
             (CHR ''f'', 12), (CHR ''n'', 10), (CHR ''r'', 13), (CHR ''t'', 9)] e"

definition unit_cons :: "nat \<Rightarrow> (nat list \<times> string) option \<Rightarrow> (nat list \<times> string) option" where
  "unit_cons x res = map_option (\<lambda>(u, r). (x # u, r)) res"

text \<open>
  \<^verbatim>\<open>lex_string\<close> reads a string behind its opening quotation mark: the decoded code units
  and the text behind the closing quotation mark. An unescaped control character
  (below U+0020), an unknown escape and a missing closing quotation mark are errors.
\<close>

fun lex_string :: "string \<Rightarrow> (nat list \<times> string) option" where
  "lex_string [] = None"
| "lex_string (c # cs) =
     (if c = CHR 0x22 then Some ([], cs)
      else if c = CHR 0x5C then
        (case cs of
           [] \<Rightarrow> None
         | e # es \<Rightarrow>
             if e = CHR ''u'' then
               (case es of
                  h1 # h2 # h3 # h4 # rest \<Rightarrow>
                    (case hex4 h1 h2 h3 h4 of
                       None \<Rightarrow> None
                     | Some x \<Rightarrow> unit_cons x (lex_string rest))
                | _ \<Rightarrow> None)
             else
               (case escape_value e of
                  None \<Rightarrow> None
                | Some x \<Rightarrow> unit_cons x (lex_string es)))
      else if (of_char c :: nat) < 32 then None
      else unit_cons (of_char c) (lex_string cs))"

subsection \<open>Numbers\<close>

text \<open>
  An optional minus sign; an integer part, either 0 alone or digits beginning with a
  nonzero digit; an optional fraction of a point and at least one digit; an optional
  exponent of e or E, an optional sign and at least one digit. Each function returns what
  it read and the rest of the text.
\<close>

definition digits :: "string \<Rightarrow> string \<times> string" where
  "digits s = (takeWhile is_digit s, dropWhile is_digit s)"

definition lex_int :: "string \<Rightarrow> (string \<times> string) option" where
  "lex_int s =
     (case s of
        [] \<Rightarrow> None
      | c # cs \<Rightarrow>
          if c = CHR ''0'' then Some (''0'', cs)
          else if is_digit c then Some (digits s)
          else None)"

definition lex_frac :: "string \<Rightarrow> (string \<times> string) option" where
  "lex_frac s =
     (case s of
        c # cs \<Rightarrow>
          if c = CHR ''.'' then
            (case digits cs of (d, r) \<Rightarrow> if d = [] then None else Some (c # d, r))
          else Some ([], s)
      | [] \<Rightarrow> Some ([], s))"

definition lex_sign :: "string \<Rightarrow> string \<times> string" where
  "lex_sign s =
     (case s of
        c # cs \<Rightarrow> if c = CHR ''+'' \<or> c = CHR ''-'' then ([c], cs) else ([], s)
      | [] \<Rightarrow> ([], s))"

definition lex_exp :: "string \<Rightarrow> (string \<times> string) option" where
  "lex_exp s =
     (case s of
        c # cs \<Rightarrow>
          if c = CHR ''e'' \<or> c = CHR ''E'' then
            (case lex_sign cs of (sg, r1) \<Rightarrow>
               (case digits r1 of (d, r2) \<Rightarrow>
                  if d = [] then None else Some (c # sg @ d, r2)))
          else Some ([], s)
      | [] \<Rightarrow> Some ([], s))"

definition lex_minus :: "string \<Rightarrow> string \<times> string" where
  "lex_minus s =
     (case s of
        c # cs \<Rightarrow> if c = CHR ''-'' then ([c], cs) else ([], s)
      | [] \<Rightarrow> ([], s))"

definition lex_number :: "string \<Rightarrow> (string \<times> string) option" where
  "lex_number s =
     (case lex_minus s of (sg, s1) \<Rightarrow>
        (case lex_int s1 of
           None \<Rightarrow> None
         | Some (i, s2) \<Rightarrow>
             (case lex_frac s2 of
                None \<Rightarrow> None
              | Some (f, s3) \<Rightarrow>
                  (case lex_exp s3 of
                     None \<Rightarrow> None
                   | Some (e, s4) \<Rightarrow> Some (sg @ i @ f @ e, s4)))))"

subsection \<open>Tokens\<close>

text \<open>Every reader consumes at least one character, which is what ends the token loop.\<close>

lemma unit_cons_Some_iff:
  "unit_cons x res = Some (u, r) \<longleftrightarrow> (\<exists>u'. res = Some (u', r) \<and> u = x # u')"
  by (cases res) (auto simp: unit_cons_def)

lemma lex_string_length: "lex_string s = Some (u, r) \<Longrightarrow> length r < length s"
proof (induction "length s" arbitrary: s u r rule: less_induct)
  case less
  from less.prems obtain c cs where s: "s = c # cs" by (cases s) auto
  have IH: "\<And>t u' r'. length t < length s \<Longrightarrow> lex_string t = Some (u', r') \<Longrightarrow> length r' < length t"
    using less.hyps by blast
  consider (quote) "c = CHR 0x22"
    | (esc) "c \<noteq> CHR 0x22" "c = CHR 0x5C"
    | (plain) "c \<noteq> CHR 0x22" "c \<noteq> CHR 0x5C" by blast
  then show ?case
  proof cases
    case quote
    with less.prems s show ?thesis by simp
  next
    case plain
    with less.prems s obtain u' where "lex_string cs = Some (u', r)"
      by (auto simp: unit_cons_Some_iff split: if_splits)
    with IH [of cs u' r] s show ?thesis by simp
  next
    case esc
    with less.prems s obtain e es where cs: "cs = e # es" by (cases cs) auto
    show ?thesis
    proof (cases "e = CHR ''u''")
      case False
      with esc less.prems s cs obtain u' where "lex_string es = Some (u', r)"
        by (auto simp: unit_cons_Some_iff split: option.splits)
      with IH [of es u' r] s cs show ?thesis by simp
    next
      case True
      with esc less.prems s cs obtain h1 h2 h3 h4 rest where es: "es = h1 # h2 # h3 # h4 # rest"
        by (auto split: list.splits)
      with True esc less.prems s cs obtain u' where "lex_string rest = Some (u', r)"
        by (auto simp: unit_cons_Some_iff split: option.splits)
      with IH [of rest u' r] s cs es show ?thesis by simp
    qed
  qed
qed

lemma digits_append: "digits s = (d, r) \<Longrightarrow> s = d @ r"
  by (auto simp: digits_def)

lemma lex_int_append: "lex_int s = Some (i, r) \<Longrightarrow> s = i @ r \<and> i \<noteq> []"
  by (cases s) (auto simp: lex_int_def digits_def split: if_splits)

lemma lex_frac_append: "lex_frac s = Some (f, r) \<Longrightarrow> s = f @ r"
  by (cases s) (auto simp: lex_frac_def digits_def split: if_splits)

lemma lex_sign_append: "lex_sign s = (sg, r) \<Longrightarrow> s = sg @ r"
  by (cases s) (auto simp: lex_sign_def split: if_splits)

lemma lex_minus_append: "lex_minus s = (sg, r) \<Longrightarrow> s = sg @ r"
  by (cases s) (auto simp: lex_minus_def split: if_splits)

lemma lex_exp_append: "lex_exp s = Some (e, r) \<Longrightarrow> s = e @ r"
proof (cases s)
  case Nil
  assume "lex_exp s = Some (e, r)"
  with Nil show ?thesis by (simp add: lex_exp_def)
next
  case (Cons c cs)
  assume a: "lex_exp s = Some (e, r)"
  show ?thesis
  proof (cases "c = CHR ''e'' \<or> c = CHR ''E''")
    case False
    with a Cons show ?thesis by (auto simp: lex_exp_def)
  next
    case True
    obtain sg r1 where sg: "lex_sign cs = (sg, r1)" by (cases "lex_sign cs")
    obtain d r2 where d: "digits r1 = (d, r2)" by (cases "digits r1")
    from a Cons True sg d have "e = c # sg @ d" "r = r2"
      by (auto simp: lex_exp_def split: if_splits)
    with lex_sign_append [OF sg] digits_append [OF d] Cons show ?thesis by simp
  qed
qed

lemma lex_number_append: "lex_number s = Some (n, r) \<Longrightarrow> s = n @ r \<and> n \<noteq> []"
proof -
  assume a: "lex_number s = Some (n, r)"
  obtain sg s1 where sg: "lex_minus s = (sg, s1)" by (cases "lex_minus s")
  from a sg obtain i s2 f s3 e s4 where
    "lex_int s1 = Some (i, s2)" "lex_frac s2 = Some (f, s3)" "lex_exp s3 = Some (e, s4)"
    and n: "n = sg @ i @ f @ e" "r = s4"
    by (auto simp: lex_number_def split: option.splits)
  with lex_int_append lex_frac_append lex_exp_append lex_minus_append [OF sg] show ?thesis
    by fastforce
qed

lemma lex_number_length: "lex_number s = Some (n, r) \<Longrightarrow> length r < length s"
  by (drule lex_number_append) auto

definition tok_cons :: "token \<Rightarrow> token list option \<Rightarrow> token list option" where
  "tok_cons t res = map_option (\<lambda>ts. t # ts) res"

function lex :: "string \<Rightarrow> token list option" where
  "lex [] = Some []"
| "lex (c # cs) =
     (if is_json_ws c then lex cs
      else if c = CHR ''{'' then tok_cons TLBrace (lex cs)
      else if c = CHR ''}'' then tok_cons TRBrace (lex cs)
      else if c = CHR ''['' then tok_cons TLBracket (lex cs)
      else if c = CHR '']'' then tok_cons TRBracket (lex cs)
      else if c = CHR '':'' then tok_cons TColon (lex cs)
      else if c = CHR '','' then tok_cons TComma (lex cs)
      else if c = CHR 0x22 then
        (case lex_string cs of
           None \<Rightarrow> None
         | Some (u, rest) \<Rightarrow> tok_cons (TString u) (lex rest))
      else if c = CHR ''-'' \<or> is_digit c then
        (case lex_number (c # cs) of
           None \<Rightarrow> None
         | Some (n, rest) \<Rightarrow> tok_cons (TNumber n) (lex rest))
      else if prefix ''true'' (c # cs) then tok_cons TTrue (lex (drop 4 (c # cs)))
      else if prefix ''false'' (c # cs) then tok_cons TFalse (lex (drop 5 (c # cs)))
      else if prefix ''null'' (c # cs) then tok_cons TNull (lex (drop 4 (c # cs)))
      else None)"
  by pat_completeness auto
termination
proof (relation "measure length", goal_cases)
  case (9 c cs x2 u rest)
  then have "lex_string cs = Some (u, rest)" by simp
  then show ?case using lex_string_length by fastforce
next
  case (10 c cs x2 n rest)
  then have "lex_number (c # cs) = Some (n, rest)" by simp
  then show ?case using lex_number_length by fastforce
qed simp_all

subsection \<open>Values\<close>

text \<open>
  The token list is read by a pushdown automaton. The stack holds the arrays and objects
  that are open, innermost first: an array with the elements read so far, an object with
  the members read so far, and an object whose next member has its key read and awaits the
  value. The expectation says what the grammar allows next.
\<close>

datatype frame =
    FArray "json list"
  | FObject "(nat list \<times> json) list"
  | FMember "(nat list \<times> json) list" "nat list"

datatype expect = EValue | EValueOrClose | EKeyOrClose | EKey | EColon | ECommaOrClose

datatype pstate = Running expect "frame list" | Finished json

text \<open>A complete value goes to the innermost open array or member, or is the result.\<close>

fun deliver :: "json \<Rightarrow> frame list \<Rightarrow> pstate option" where
  "deliver v [] = Some (Finished v)"
| "deliver v (FArray es # st) = Some (Running ECommaOrClose (FArray (es @ [v]) # st))"
| "deliver v (FMember ms k # st) = Some (Running ECommaOrClose (FObject (ms @ [(k, v)]) # st))"
| "deliver v (FObject ms # st) = None"

fun start_value :: "token \<Rightarrow> frame list \<Rightarrow> pstate option" where
  "start_value TLBrace st = Some (Running EKeyOrClose (FObject [] # st))"
| "start_value TLBracket st = Some (Running EValueOrClose (FArray [] # st))"
| "start_value (TString u) st = deliver (JString u) st"
| "start_value (TNumber n) st = deliver (JNumber n) st"
| "start_value TTrue st = deliver (JBool True) st"
| "start_value TFalse st = deliver (JBool False) st"
| "start_value TNull st = deliver JNull st"
| "start_value _ st = None"

fun json_step :: "pstate \<Rightarrow> token \<Rightarrow> pstate option" where
  "json_step (Running EValue st) t = start_value t st"
| "json_step (Running EValueOrClose (FArray es # st)) TRBracket = deliver (JArray es) st"
| "json_step (Running EValueOrClose st) t = start_value t st"
| "json_step (Running EKeyOrClose (FObject ms # st)) TRBrace = deliver (JObject ms) st"
| "json_step (Running EKeyOrClose (FObject ms # st)) (TString k) =
     Some (Running EColon (FMember ms k # st))"
| "json_step (Running EKey (FObject ms # st)) (TString k) =
     Some (Running EColon (FMember ms k # st))"
| "json_step (Running EColon st) TColon = Some (Running EValue st)"
| "json_step (Running ECommaOrClose (FArray es # st)) TComma =
     Some (Running EValue (FArray es # st))"
| "json_step (Running ECommaOrClose (FArray es # st)) TRBracket = deliver (JArray es) st"
| "json_step (Running ECommaOrClose (FObject ms # st)) TComma =
     Some (Running EKey (FObject ms # st))"
| "json_step (Running ECommaOrClose (FObject ms # st)) TRBrace = deliver (JObject ms) st"
| "json_step _ _ = None"

fun json_run :: "pstate \<Rightarrow> token list \<Rightarrow> pstate option" where
  "json_run s [] = Some s"
| "json_run s (t # ts) = (case json_step s t of None \<Rightarrow> None | Some s' \<Rightarrow> json_run s' ts)"

definition JSON_parse :: "string \<Rightarrow> js_error + json" where
  "JSON_parse text =
     (case lex text of
        None \<Rightarrow> Inl SyntaxError
      | Some ts \<Rightarrow>
          (case json_run (Running EValue []) ts of
             Some (Finished v) \<Rightarrow> Inr v
           | _ \<Rightarrow> Inl SyntaxError))"

text \<open>
  Reading a property \<^verbatim>\<open>p\<close> of a parsed value other than \<^verbatim>\<open>null\<close>, for a name that no
  built-in prototype defines and that is neither an array index nor \<^verbatim>\<open>length\<close> (as
  \<^verbatim>\<open>isSerious\<close> and \<^verbatim>\<open>suggestImmediateAction\<close> are): the own property of an object, and
  \<^verbatim>\<open>undefined\<close>, here \<^term>\<open>None\<close>, otherwise.
\<close>

definition get_prop :: "json \<Rightarrow> string \<Rightarrow> json option" where
  "get_prop v p =
     (case v of
        JObject ms \<Rightarrow> map_of (rev ms) (map of_char p)
      | _ \<Rightarrow> None)"

section \<open>Symptom analysis (ai-helpers.ts)\<close>

subsection \<open>Module initialisation\<close>

text \<open>
  \<^verbatim>\<open>process.env\<close> maps variable names to strings; a variable that is not set reads as
  \<^verbatim>\<open>undefined\<close>. The module body throws when the key is falsy (not set, or the empty
  string) and otherwise creates \<^verbatim>\<open>genAI\<close>, the SDK handle that holds the key.
\<close>

type_synonym env = "string \<rightharpoonup> string"

datatype GoogleGenerativeAI = GoogleGenerativeAI (apiKey: string)

definition load_ai_helpers :: "env \<Rightarrow> js_error + GoogleGenerativeAI" where
  "load_ai_helpers process_env =
     (case process_env ''NEXT_PUBLIC_GOOGLE_AI_API_KEY'' of
        None \<Rightarrow> Inl (Error ''GOOGLE_AI_API_KEY is not set'')
      | Some key \<Rightarrow>
          if key = [] then Inl (Error ''GOOGLE_AI_API_KEY is not set'')
          else Inr (GoogleGenerativeAI key))"

subsection \<open>The request\<close>

record SymptomAnalysisInput =
  symptoms :: string
  photoDataUri :: "string option"

text \<open>
  The result object. The interface of the source declares two booleans and a string; at
  run time the fields hold whatever the function stores, so the flags are JavaScript
  values (\<^term>\<open>None\<close> is \<^verbatim>\<open>undefined\<close>) and the explanation is a string or \<^verbatim>\<open>undefined\<close>.
\<close>

record SymptomAnalysisOutput =
  isSerious :: "json option"
  explanation :: "string option"
  suggestImmediateAction :: "json option"

text \<open>The generation settings, with the decimal literals of the source as rationals.\<close>

record GenerationConfig =
  temperature :: rat
  topP :: rat
  topK :: nat
  maxOutputTokens :: nat

text \<open>
  What one call of \<^verbatim>\<open>generateContent\<close> hands to the SDK: the key of the handle, the model
  parameters, and the content parts. A part is text or inline data (an image).
\<close>

datatype Part = TextPart string | InlineDataPart string

record GenerateRequest =
  credential :: string
  model :: string
  generationConfig :: GenerationConfig
  contents :: "Part list"

text \<open>
  The external service: \<^verbatim>\<open>generateContent\<close>, \<^verbatim>\<open>result.response\<close> and \<^verbatim>\<open>response.text()\<close>
  together either throw or give the response text.
\<close>

type_synonym TextGenerationClient = "GenerateRequest \<Rightarrow> js_error + string"

definition prompt :: "SymptomAnalysisInput \<Rightarrow> string" where
  \<open>prompt input =
     ''As a medical expert, analyze these symptoms concisely and determine if they indicate a potentially serious condition requiring immediate attention.\<newline>'' @
     ''\<newline>'' @
     ''Symptoms: '' @ symptoms input @ ''\<newline>'' @
     ''\<newline>'' @
     ''First, determine:\<newline>'' @
     ''1. If the condition is potentially serious (true/false)\<newline>'' @
     ''2. If immediate medical attention is recommended (true/false)\<newline>'' @
     ''\<newline>'' @
     ''Then, provide a brief explanation in this format:\<newline>'' @
     ''\<newline>'' @
     ''# Likely Cause\<newline>'' @
     ''[One clear sentence about the most likely cause]\<newline>'' @
     ''\<newline>'' @
     ''# What You Should Do\<newline>'' @
     ''- [One specific action recommendation]\<newline>'' @
     ''- [Any immediate steps to take at home, if applicable]\<newline>'' @
     ''\<newline>'' @
     ''# When to Seek Help\<newline>'' @
     ''- [1-2 specific warning signs that would require medical attention]\<newline>'' @
     ''\<newline>'' @
     ''Keep the explanation very concise and action-oriented. Use simple, clear language.\<newline>'' @
     ''\<newline>'' @
     ''Your response should be split into two parts:\<newline>'' @
     ''1. A JSON object with just the boolean flags:\<newline>'' @
     ''{\<newline>'' @
     ''  "isSerious": boolean,\<newline>'' @
     ''  "suggestImmediateAction": boolean\<newline>'' @
     ''}\<newline>'' @
     ''\<newline>'' @
     ''2. The markdown formatted explanation as plain text.\<newline>'' @
     ''\<newline>'' @
     ''Separate these with three dashes (---) on a new line.''\<close>

text \<open>
  \<^verbatim>\<open>genAI.getGenerativeModel({...})\<close> followed by \<^verbatim>\<open>model.generateContent(prompt)\<close>: the
  argument is the prompt string alone, which the SDK sends as one text part.
\<close>

definition generate_request :: "GoogleGenerativeAI \<Rightarrow> SymptomAnalysisInput \<Rightarrow> GenerateRequest" where
  "generate_request genAI input =
     \<lparr>credential = apiKey genAI,
      model = ''gemini-2.5-flash'',
      generationConfig = \<lparr>temperature = 0.9, topP = 0.95, topK = 64, maxOutputTokens = 8192\<rparr>,
      contents = [TextPart (prompt input)]\<rparr>"

subsection \<open>Reading the response\<close>

text \<open>
  The \<^verbatim>\<open>try\<close> block. The array pattern \<^verbatim>\<open>[jsonPart, markdownPart]\<close> takes the first two
  elements of the trimmed parts; an element that is missing is \<^verbatim>\<open>undefined\<close>.
  \<^verbatim>\<open>JSON.parse(undefined)\<close> parses the text "undefined" and throws a \<^verbatim>\<open>SyntaxError\<close>
  (the split never gives an empty array, so this does not arise). The object pattern
  \<^verbatim>\<open>{ isSerious, suggestImmediateAction }\<close> throws a \<^verbatim>\<open>TypeError\<close> on \<^verbatim>\<open>null\<close> and reads
  the two properties of any other value.
\<close>

definition try_block :: "string \<Rightarrow> js_error + SymptomAnalysisOutput" where
  "try_block text =
     (case map trim (split_str text ''---'') of
        [] \<Rightarrow> Inl SyntaxError
      | jsonPart # rest \<Rightarrow>
          (case JSON_parse jsonPart of
             Inl e \<Rightarrow> Inl e
           | Inr v \<Rightarrow>
               if v = JNull then Inl TypeError
               else Inr \<lparr>isSerious = get_prop v ''isSerious'',
                         explanation = (case rest of [] \<Rightarrow> None | markdownPart # _ \<Rightarrow> Some markdownPart),
                         suggestImmediateAction = get_prop v ''suggestImmediateAction''\<rparr>))"

text \<open>The \<^verbatim>\<open>catch\<close> block: the keyword heuristic on the lower-cased response.\<close>

definition catch_block :: "string \<Rightarrow> SymptomAnalysisOutput" where
  "catch_block text =
     \<lparr>isSerious = Some (JBool (includes_str (toLowerCase text) ''serious'' \<or>
                                includes_str (toLowerCase text) ''severe'')),
      explanation = Some text,
      suggestImmediateAction = Some (JBool (includes_str (toLowerCase text) ''immediate'' \<or>
                                             includes_str (toLowerCase text) ''emergency''))\<rparr>"

definition read_response :: "string \<Rightarrow> SymptomAnalysisOutput" where
  "read_response text = (case try_block text of Inr out \<Rightarrow> out | Inl e \<Rightarrow> catch_block text)"

text \<open>
  \<^verbatim>\<open>analyzeSymptoms\<close>, with the module's \<^verbatim>\<open>genAI\<close> and the external service as
  arguments. An error of the service is outside the \<^verbatim>\<open>try\<close> block and rejects the promise.
\<close>

definition analyzeSymptoms ::
  "GoogleGenerativeAI \<Rightarrow> TextGenerationClient \<Rightarrow> SymptomAnalysisInput \<Rightarrow> js_error + SymptomAnalysisOutput" where
  "analyzeSymptoms genAI client input =
     (case client (generate_request genAI input) of
        Inl e \<Rightarrow> Inl e
      | Inr text \<Rightarrow> Inr (read_response text))"

text \<open>
  A program that imports the module and calls the function: the import evaluates the
  module body first, and the function exists only if the body completed.
\<close>

definition import_and_analyze ::
  "env \<Rightarrow> TextGenerationClient \<Rightarrow> SymptomAnalysisInput \<Rightarrow> js_error + SymptomAnalysisOutput" where
  "import_and_analyze process_env client input =
     (case load_ai_helpers process_env of
        Inl e \<Rightarrow> Inl e
      | Inr genAI \<Rightarrow> analyzeSymptoms genAI client input)"

text \<open>A stand-in service for tests, which answers every request with the given text.\<close>

definition respond_with :: "string \<Rightarrow> TextGenerationClient" where
  "respond_with text request = Inr text"

text \<open>A service that refuses a request which carries no credential.\<close>

definition require_credential :: "TextGenerationClient \<Rightarrow> TextGenerationClient" where
  "require_credential client request =
     (if credential request = [] then Inl (Error ''no credential'') else client request)"

subsection \<open>Notions of the specification\<close>

text \<open>
  The JSON segment in the specification's words: the text before the first occurrence of
  the delimiter, and the whole text when there is none.
\<close>

definition first_segment :: "string \<Rightarrow> string" where
  "first_segment text =
     (case indexOf_str text ''---'' of None \<Rightarrow> text | Some i \<Rightarrow> take i text)"

text \<open>
  The result that the interface declares: \<^verbatim>\<open>typeof\<close> of both flags is boolean, and the
  explanation is a string, which the specification wants non-empty.
\<close>

fun is_boolean :: "json option \<Rightarrow> bool" where
  "is_boolean (Some (JBool b)) = True"
| "is_boolean _ = False"

fun is_nonempty_string :: "string option \<Rightarrow> bool" where
  "is_nonempty_string (Some s) = (s \<noteq> [])"
| "is_nonempty_string None = False"

definition well_typed_result :: "SymptomAnalysisOutput \<Rightarrow> bool" where
  "well_typed_result out \<longleftrightarrow>
     is_boolean (isSerious out) \<and> is_boolean (suggestImmediateAction out) \<and>
     is_nonempty_string (explanation out)"

section \<open>Properties\<close>

subsection \<open>Facts about the string primitives\<close>

lemma of_char_toLowerCase_char:
  "of_char (toLowerCase_char c) =
     (let n = (of_char c :: nat)
      in if (65 \<le> n \<and> n \<le> 90) \<or> (192 \<le> n \<and> n \<le> 222 \<and> n \<noteq> 215)
         then n + 32 else n)"
  by (auto simp add: toLowerCase_char_def Let_def)

lemma toLowerCase_char_idem: "toLowerCase_char (toLowerCase_char c) = toLowerCase_char c"
proof -
  have "(of_char (toLowerCase_char (toLowerCase_char c)) :: nat) = of_char (toLowerCase_char c)"
    by (simp only: of_char_toLowerCase_char [of "toLowerCase_char c"])
       (auto simp add: of_char_toLowerCase_char Let_def)
  then show ?thesis by simp
qed

lemma toLowerCase_idem: "toLowerCase (toLowerCase s) = toLowerCase s"
  by (simp add: toLowerCase_def toLowerCase_char_idem)

lemma toLowerCase_Nil_iff: "toLowerCase s = [] \<longleftrightarrow> s = []"
  by (simp add: toLowerCase_def)

lemma includes_str_iff: "includes_str s sub \<longleftrightarrow> (\<exists>a b. s = a @ sub @ b)"
proof (induction s)
  case Nil
  then show ?case by auto
next
  case (Cons c cs)
  show ?case
  proof
    assume "includes_str (c # cs) sub"
    then consider "prefix sub (c # cs)" | "includes_str cs sub" by auto
    then show "\<exists>a b. c # cs = a @ sub @ b"
    proof cases
      case 1
      then obtain b where "c # cs = sub @ b" by (auto simp: prefix_def)
      then have "c # cs = [] @ sub @ b" by simp
      then show ?thesis by blast
    next
      case 2
      with Cons.IH obtain a b where "cs = a @ sub @ b" by blast
      then have "c # cs = (c # a) @ sub @ b" by simp
      then show ?thesis by blast
    qed
  next
    assume "\<exists>a b. c # cs = a @ sub @ b"
    then obtain a b where ab: "c # cs = a @ sub @ b" by blast
    show "includes_str (c # cs) sub"
    proof (cases a)
      case Nil
      with ab have "prefix sub (c # cs)" by (simp add: prefix_def)
      then show ?thesis by simp
    next
      case (Cons x a')
      with ab have "cs = a' @ sub @ b" by simp
      with Cons.IH have "includes_str cs sub" by blast
      then show ?thesis by simp
    qed
  qed
qed

lemma indexOf_str_None_iff: "indexOf_str s sub = None \<longleftrightarrow> \<not> includes_str s sub"
  by (induction s) auto

lemma split_from_no_separator:
  "indexOf_str s sep = None \<Longrightarrow> split_from sep cur s = [cur @ s]"
proof (induction s arbitrary: cur)
  case Nil
  then show ?case by simp
next
  case (Cons c cs)
  from Cons.prems have np: "\<not> prefix sep (c # cs)" and "indexOf_str cs sep = None"
    by (auto split: if_splits)
  with Cons.IH [of "cur @ [c]"] show ?case by simp
qed

lemma split_from_first_separator:
  "sep \<noteq> [] \<Longrightarrow> indexOf_str s sep = Some i \<Longrightarrow>
   split_from sep cur s = (cur @ take i s) # split_from sep [] (drop (i + length sep) s)"
proof (induction s arbitrary: cur i)
  case Nil
  then show ?case by simp
next
  case (Cons c cs)
  show ?case
  proof (cases "prefix sep (c # cs)")
    case True
    with Cons.prems have "i = 0" by simp
    with True Cons.prems(1) show ?thesis by simp
  next
    case False
    with Cons.prems obtain i' where i: "i = Suc i'" and "indexOf_str cs sep = Some i'"
      by auto
    with Cons.IH [of i' "cur @ [c]"] Cons.prems(1) False show ?thesis by simp
  qed
qed

lemma split_str_no_separator:
  "sep \<noteq> [] \<Longrightarrow> \<not> includes_str s sep \<Longrightarrow> split_str s sep = [s]"
  using split_from_no_separator [of s sep "[]"]
  by (simp add: split_str_def indexOf_str_None_iff)

lemma split_str_first_separator:
  "sep \<noteq> [] \<Longrightarrow> indexOf_str s sep = Some i \<Longrightarrow>
   split_str s sep = take i s # split_str (drop (i + length sep) s) sep"
  using split_from_first_separator [of sep s i "[]"]
  by (simp add: split_str_def)

lemma all_dropWhile_iff: "(\<forall>x \<in> set (dropWhile P s). P x) \<longleftrightarrow> (\<forall>x \<in> set s. P x)"
proof
  assume a: "\<forall>x \<in> set (dropWhile P s). P x"
  have "dropWhile P s = []"
  proof (rule ccontr)
    assume ne: "dropWhile P s \<noteq> []"
    then have "\<not> P (hd (dropWhile P s))" by (rule hd_dropWhile)
    moreover from ne have "hd (dropWhile P s) \<in> set (dropWhile P s)" by simp
    ultimately show False using a by blast
  qed
  then show "\<forall>x \<in> set s. P x" by (simp add: dropWhile_eq_Nil_conv)
next
  assume "\<forall>x \<in> set s. P x"
  then show "\<forall>x \<in> set (dropWhile P s). P x" by (meson set_dropWhileD)
qed

lemma trim_Nil_iff: "trim s = [] \<longleftrightarrow> (\<forall>c \<in> set s. is_js_ws c)"
  by (simp add: trim_def dropWhile_eq_Nil_conv all_dropWhile_iff)

subsection \<open>Practitioner lookup\<close>

lemma location_of_Some:
  "q \<noteq> [] \<Longrightarrow> location_of \<lparr>locationQuery = Some q\<rparr> = toLowerCase q"
  by (simp add: location_of_def)

lemma ireland_lower: "toLowerCase ''Ireland'' = ''ireland''"
  by code_simp

lemma location_of_default:
  "location_of \<lparr>locationQuery = None\<rparr> = ''ireland''"
  "location_of \<lparr>locationQuery = Some []\<rparr> = ''ireland''"
  by (simp_all add: location_of_def ireland_lower)

text \<open>
  Claim C6. \<^verbatim>\<open>findPractitioners\<close> lower-cases the query and tests it for the three city
  names in the order dublin, cork, galway, returning the whole list of the first one it
  contains: a query whose lower-cased form contains "dublin" gets the Dublin list, of four
  records; one that contains "cork" but not "dublin" gets the Cork list, of three; one
  that contains "galway" and neither of the others gets the Galway list.
\<close>

theorem findPractitioners_city_priority:
  "(includes_str (toLowerCase q) ''dublin'' \<longrightarrow> find_str q = datasets_dublin) \<and>
   (\<not> includes_str (toLowerCase q) ''dublin'' \<and> includes_str (toLowerCase q) ''cork''
      \<longrightarrow> find_str q = datasets_cork) \<and>
   (\<not> includes_str (toLowerCase q) ''dublin'' \<and> \<not> includes_str (toLowerCase q) ''cork'' \<and>
    includes_str (toLowerCase q) ''galway'' \<longrightarrow> find_str q = datasets_galway) \<and>
   length datasets_dublin = 4 \<and> length datasets_cork = 3"
proof (cases "q = []")
  case True
  then show ?thesis
    by (simp add: toLowerCase_def datasets_dublin_def datasets_cork_def)
next
  case False
  then have "find_str q = pick (toLowerCase q)"
    by (simp add: findPractitioners_def location_of_Some)
  then show ?thesis
    by (simp add: pick_def datasets_dublin_def datasets_cork_def)
qed

lemma dublin_query: "includes_str (toLowerCase ''Dublin, Ireland'') ''dublin''"
  by code_simp

lemma cork_query:
  "\<not> includes_str (toLowerCase ''Cork'') ''dublin'' \<and> includes_str (toLowerCase ''Cork'') ''cork''"
  by code_simp

text \<open>
  The two queries of the specification's tests, "Dublin, Ireland" and "Cork".
\<close>

theorem findPractitioners_city_priority_witness:
  "includes_str (toLowerCase ''Dublin, Ireland'') ''dublin'' \<and>
   find_str ''Dublin, Ireland'' = datasets_dublin \<and>
   \<not> includes_str (toLowerCase ''Cork'') ''dublin'' \<and> includes_str (toLowerCase ''Cork'') ''cork'' \<and>
   find_str ''Cork'' = datasets_cork"
  using findPractitioners_city_priority [of "''Dublin, Ireland''"]
        findPractitioners_city_priority [of "''Cork''"] dublin_query cork_query
  by blast


text \<open>
  Claim C7, as amended. A query whose lower-cased form contains none of the three city
  names, the empty query and the undefined query all get the same list of five records:
  index 0 of the Dublin list, index 0 of the Cork list, index 0 of the Galway list,
  index 2 of the Dublin list and index 2 of the Cork list (the claim has the Galway list
  for the fifth).
\<close>

theorem findPractitioners_default_sample:
  "(\<not> includes_str (toLowerCase q) ''dublin'' \<and> \<not> includes_str (toLowerCase q) ''cork'' \<and>
    \<not> includes_str (toLowerCase q) ''galway'' \<longrightarrow>
      find_str q = [datasets_dublin ! 0, datasets_cork ! 0, datasets_galway ! 0,
                    datasets_dublin ! 2, datasets_cork ! 2]) \<and>
   find_str [] = [datasets_dublin ! 0, datasets_cork ! 0, datasets_galway ! 0,
                  datasets_dublin ! 2, datasets_cork ! 2] \<and>
   practitioners (findPractitioners \<lparr>locationQuery = None\<rparr>) =
     [datasets_dublin ! 0, datasets_cork ! 0, datasets_galway ! 0,
      datasets_dublin ! 2, datasets_cork ! 2] \<and>
   map name [datasets_dublin ! 0, datasets_cork ! 0, datasets_galway ! 0,
             datasets_dublin ! 2, datasets_cork ! 2] =
     [''Grand Canal Medical Clinic'', ''Lee Side Family Practice'',
      ''Eyre Square Medical Practice'', ''Dublin City Cardiology Centre'',
      ''Cork University Hospital'']"
proof -
  have none: "practitioners (findPractitioners \<lparr>locationQuery = None\<rparr>) =
      [datasets_dublin ! 0, datasets_cork ! 0, datasets_galway ! 0,
       datasets_dublin ! 2, datasets_cork ! 2]"
    by (simp add: findPractitioners_def location_of_default pick_def)
  have empty: "find_str [] =
      [datasets_dublin ! 0, datasets_cork ! 0, datasets_galway ! 0,
       datasets_dublin ! 2, datasets_cork ! 2]"
    by (simp add: findPractitioners_def location_of_default pick_def)
  have other: "find_str q =
      [datasets_dublin ! 0, datasets_cork ! 0, datasets_galway ! 0,
       datasets_dublin ! 2, datasets_cork ! 2]"
    if "\<not> includes_str (toLowerCase q) ''dublin''" "\<not> includes_str (toLowerCase q) ''cork''"
       "\<not> includes_str (toLowerCase q) ''galway''"
  proof (cases "q = []")
    case True
    with empty show ?thesis by simp
  next
    case False
    with that show ?thesis
      by (simp add: findPractitioners_def location_of_Some pick_def)
  qed
  have names: "map name [datasets_dublin ! 0, datasets_cork ! 0, datasets_galway ! 0,
             datasets_dublin ! 2, datasets_cork ! 2] =
     [''Grand Canal Medical Clinic'', ''Lee Side Family Practice'',
      ''Eyre Square Medical Practice'', ''Dublin City Cardiology Centre'',
      ''Cork University Hospital'']"
    by (simp add: datasets_dublin_def datasets_cork_def datasets_galway_def)
  from none empty other names show ?thesis by blast
qed

lemma atlantis_query:
  "\<not> includes_str (toLowerCase ''Atlantis'') ''dublin'' \<and>
   \<not> includes_str (toLowerCase ''Atlantis'') ''cork'' \<and>
   \<not> includes_str (toLowerCase ''Atlantis'') ''galway''"
  by code_simp

text \<open>
  The query "Atlantis" of the specification's test.
\<close>

theorem findPractitioners_default_sample_witness:
  "\<not> includes_str (toLowerCase ''Atlantis'') ''dublin'' \<and>
   \<not> includes_str (toLowerCase ''Atlantis'') ''cork'' \<and>
   \<not> includes_str (toLowerCase ''Atlantis'') ''galway'' \<and>
   find_str ''Atlantis'' = find_str [] \<and>
   find_str ''Atlantis'' = practitioners (findPractitioners \<lparr>locationQuery = None\<rparr>) \<and>
   length (find_str ''Atlantis'') = 5"
  using findPractitioners_default_sample [of "''Atlantis''"] atlantis_query
  by simp

text \<open>
  Claim C7 as stated fails: for "Atlantis" the result is not the specified list, whichever
  of the three cities are taken for the groups A, B and C.
\<close>

theorem findPractitioners_default_fifth_counterexample:
  "find_str ''Atlantis'' \<noteq> specified_default datasets_dublin datasets_cork datasets_galway \<and>
   find_str ''Atlantis'' \<noteq> specified_default datasets_dublin datasets_galway datasets_cork \<and>
   find_str ''Atlantis'' \<noteq> specified_default datasets_cork datasets_dublin datasets_galway \<and>
   find_str ''Atlantis'' \<noteq> specified_default datasets_cork datasets_galway datasets_dublin \<and>
   find_str ''Atlantis'' \<noteq> specified_default datasets_galway datasets_dublin datasets_cork \<and>
   find_str ''Atlantis'' \<noteq> specified_default datasets_galway datasets_cork datasets_dublin"
proof -
  have "find_str ''Atlantis'' = [datasets_dublin ! 0, datasets_cork ! 0, datasets_galway ! 0,
      datasets_dublin ! 2, datasets_cork ! 2]"
    using atlantis_query by (simp add: findPractitioners_def location_of_Some pick_def)
  then show ?thesis
    by (simp add: specified_default_def datasets_dublin_def datasets_cork_def datasets_galway_def)
qed

text \<open>
  Claim C8. The result for a query string is the result for its lower-cased form, and two
  queries with the same lower-cased form get the same result. (The model is a function:
  the source reads and writes nothing outside the call, its table being built anew in
  every call.)
\<close>

theorem findPractitioners_lowercased_query:
  "find_str q = find_str (toLowerCase q) \<and>
   (toLowerCase q = toLowerCase q' \<longrightarrow> find_str q = find_str q')"
proof -
  have loc: "location_of \<lparr>locationQuery = Some r\<rparr> =
      (if r = [] then ''ireland'' else toLowerCase r)" for r
    by (simp add: location_of_def ireland_lower)
  have "location_of \<lparr>locationQuery = Some (toLowerCase q)\<rparr> = location_of \<lparr>locationQuery = Some q\<rparr>"
    by (simp add: loc toLowerCase_idem toLowerCase_Nil_iff)
  moreover have "location_of \<lparr>locationQuery = Some q\<rparr> = location_of \<lparr>locationQuery = Some q'\<rparr>"
    if "toLowerCase q = toLowerCase q'"
  proof -
    from that have "q = [] \<longleftrightarrow> q' = []" by (metis toLowerCase_Nil_iff)
    with that show ?thesis by (simp add: loc)
  qed
  ultimately show ?thesis by (simp add: findPractitioners_def)
qed

lemma cork_queries: "toLowerCase ''CORK city'' = toLowerCase ''Cork City''"
  by code_simp

text \<open>
  Two spellings of one query.
\<close>

theorem findPractitioners_lowercased_query_witness:
  "toLowerCase ''CORK city'' = toLowerCase ''Cork City'' \<and>
   find_str ''CORK city'' = find_str ''Cork City'' \<and>
   find_str ''CORK city'' = find_str (toLowerCase ''CORK city'')"
  using findPractitioners_lowercased_query [of "''CORK city''" "''Cork City''"] cork_queries
  by blast

subsection \<open>Symptom analysis: the request\<close>

lemma analyzeSymptoms_response:
  "client (generate_request genAI input) = Inr text \<Longrightarrow>
   analyzeSymptoms genAI client input = Inr (read_response text)"
  by (simp add: analyzeSymptoms_def)

lemma respond_with_response: "respond_with text (generate_request genAI input) = Inr text"
  by (simp add: respond_with_def)

lemma analyzeSymptoms_respond_with:
  "analyzeSymptoms genAI (respond_with text) input = Inr (read_response text)"
  by (simp add: analyzeSymptoms_def respond_with_def)

text \<open>
  Claim C5 says that a call with a photo submits the photo with the prompt, so that the
  request differs from the request of the same call without a photo. The code does not:
  \<^verbatim>\<open>photoDataUri\<close> is never read. For every symptoms string and every photo the request is
  the request of the call without the photo, its content is the one text part of the
  prompt, and so the result is the same whatever the service is.
\<close>

theorem analyzeSymptoms_ignores_photo:
  "generate_request genAI \<lparr>symptoms = s, photoDataUri = Some photo\<rparr> =
     generate_request genAI \<lparr>symptoms = s, photoDataUri = None\<rparr> \<and>
   contents (generate_request genAI \<lparr>symptoms = s, photoDataUri = Some photo\<rparr>) =
     [TextPart (prompt \<lparr>symptoms = s, photoDataUri = None\<rparr>)] \<and>
   analyzeSymptoms genAI client \<lparr>symptoms = s, photoDataUri = Some photo\<rparr> =
     analyzeSymptoms genAI client \<lparr>symptoms = s, photoDataUri = None\<rparr>"
  by (simp add: analyzeSymptoms_def generate_request_def prompt_def)

text \<open>
  Claim C9. When the key is not set, evaluating the module fails with the error
  "GOOGLE_AI_API_KEY is not set", and so does every program that imports it and calls
  \<^verbatim>\<open>analyzeSymptoms\<close>, whatever the service would have answered. When the module does load,
  its handle holds the key of the environment, which is not empty. And no request without
  a credential is ever made: a service that refuses such requests cannot be told from the
  service itself.
\<close>

theorem missing_api_key_fails_at_load:
  "(process_env ''NEXT_PUBLIC_GOOGLE_AI_API_KEY'' = None \<longrightarrow>
      load_ai_helpers process_env = Inl (Error ''GOOGLE_AI_API_KEY is not set'') \<and>
      import_and_analyze process_env client input = Inl (Error ''GOOGLE_AI_API_KEY is not set'')) \<and>
   (load_ai_helpers process_env = Inr genAI \<longrightarrow>
      process_env ''NEXT_PUBLIC_GOOGLE_AI_API_KEY'' = Some (apiKey genAI) \<and> apiKey genAI \<noteq> []) \<and>
   import_and_analyze process_env (require_credential client) input =
     import_and_analyze process_env client input"
proof (intro conjI impI)
  assume "process_env ''NEXT_PUBLIC_GOOGLE_AI_API_KEY'' = None"
  then show "load_ai_helpers process_env = Inl (Error ''GOOGLE_AI_API_KEY is not set'')"
    and "import_and_analyze process_env client input = Inl (Error ''GOOGLE_AI_API_KEY is not set'')"
    by (simp_all add: load_ai_helpers_def import_and_analyze_def)
next
  assume "load_ai_helpers process_env = Inr genAI"
  then show "process_env ''NEXT_PUBLIC_GOOGLE_AI_API_KEY'' = Some (apiKey genAI)"
    and "apiKey genAI \<noteq> []"
    by (auto simp: load_ai_helpers_def split: option.splits if_splits)
next
  show "import_and_analyze process_env (require_credential client) input =
     import_and_analyze process_env client input"
  proof (cases "load_ai_helpers process_env")
    case (Inl e)
    then show ?thesis by (simp add: import_and_analyze_def)
  next
    case (Inr g)
    then have "apiKey g \<noteq> []"
      by (auto simp: load_ai_helpers_def split: option.splits if_splits)
    then have "require_credential client (generate_request g input) =
        client (generate_request g input)"
      by (simp add: require_credential_def generate_request_def)
    with Inr show ?thesis by (simp add: import_and_analyze_def analyzeSymptoms_def)
  qed
qed

text \<open>
  An environment without the key, where a call fails before the service is asked, and one
  with the key, where the module loads.
\<close>

theorem missing_api_key_fails_at_load_witness:
  "import_and_analyze Map.empty (respond_with ''This is an emergency.'')
     \<lparr>symptoms = ''crushing chest pain'', photoDataUri = None\<rparr> =
     Inl (Error ''GOOGLE_AI_API_KEY is not set'') \<and>
   load_ai_helpers [''NEXT_PUBLIC_GOOGLE_AI_API_KEY'' \<mapsto> ''secret''] =
     Inr (GoogleGenerativeAI ''secret'') \<and>
   [''NEXT_PUBLIC_GOOGLE_AI_API_KEY'' \<mapsto> ''secret''] ''NEXT_PUBLIC_GOOGLE_AI_API_KEY'' =
     Some (apiKey (GoogleGenerativeAI ''secret''))"
proof -
  have load: "load_ai_helpers [''NEXT_PUBLIC_GOOGLE_AI_API_KEY'' \<mapsto> ''secret''] =
     Inr (GoogleGenerativeAI ''secret'')"
    by (simp add: load_ai_helpers_def)
  have none: "(Map.empty :: env) ''NEXT_PUBLIC_GOOGLE_AI_API_KEY'' = None" by simp
  from missing_api_key_fails_at_load
         [of Map.empty "respond_with ''This is an emergency.''"
             "\<lparr>symptoms = ''crushing chest pain'', photoDataUri = None\<rparr>"] none
       missing_api_key_fails_at_load
         [of "[''NEXT_PUBLIC_GOOGLE_AI_API_KEY'' \<mapsto> ''secret'']" _ _ "GoogleGenerativeAI ''secret''"]
       load
  show ?thesis by blast
qed

subsection \<open>Symptom analysis: reading the response\<close>

lemma split_str_first_segment:
  "\<exists>rest. split_str text ''---'' = first_segment text # rest"
proof (cases "indexOf_str text ''---''")
  case None
  then have "\<not> includes_str text ''---''" by (simp add: indexOf_str_None_iff)
  then have "split_str text ''---'' = [text]" by (simp add: split_str_no_separator)
  with None show ?thesis by (simp add: first_segment_def)
next
  case (Some i)
  then show ?thesis
    using split_str_first_separator [of "''---''" "text" i] by (simp add: first_segment_def)
qed

lemma try_block_first_segment:
  "\<exists>expl. try_block text =
     (case JSON_parse (trim (first_segment text)) of
        Inl e \<Rightarrow> Inl e
      | Inr v \<Rightarrow>
          if v = JNull then Inl TypeError
          else Inr \<lparr>isSerious = get_prop v ''isSerious'', explanation = expl,
                    suggestImmediateAction = get_prop v ''suggestImmediateAction''\<rparr>)"
proof -
  obtain rest where "split_str text ''---'' = first_segment text # rest"
    using split_str_first_segment by blast
  then show ?thesis by (auto simp: try_block_def)
qed

text \<open>
  The \<^verbatim>\<open>try\<close> block throws exactly when \<^verbatim>\<open>JSON.parse\<close> of the trimmed first segment
  throws, or gives \<^verbatim>\<open>null\<close>.
\<close>

lemma try_block_throws_iff:
  "try_block text = Inl e \<longleftrightarrow>
     JSON_parse (trim (first_segment text)) = Inl e \<or>
     JSON_parse (trim (first_segment text)) = Inr JNull \<and> e = TypeError"
proof -
  obtain expl where "try_block text =
     (case JSON_parse (trim (first_segment text)) of
        Inl e \<Rightarrow> Inl e
      | Inr v \<Rightarrow>
          if v = JNull then Inl TypeError
          else Inr \<lparr>isSerious = get_prop v ''isSerious'', explanation = expl,
                    suggestImmediateAction = get_prop v ''suggestImmediateAction''\<rparr>)"
    using try_block_first_segment by blast
  then show ?thesis by (auto split: sum.splits)
qed

lemma try_block_undelimited:
  assumes "\<not> includes_str text ''---''"
  shows "try_block text =
     (case JSON_parse (trim text) of
        Inl e \<Rightarrow> Inl e
      | Inr v \<Rightarrow>
          if v = JNull then Inl TypeError
          else Inr \<lparr>isSerious = get_prop v ''isSerious'', explanation = None,
                    suggestImmediateAction = get_prop v ''suggestImmediateAction''\<rparr>)"
  using assms by (simp add: try_block_def split_str_no_separator split: sum.splits)

text \<open>
  With a delimiter, the explanation is the trimmed second part: what lies between the
  first delimiter and the next one, or the end of the text.
\<close>

lemma try_block_delimited:
  assumes "indexOf_str text ''---'' = Some i"
    and "split_str (drop (i + 3) text) ''---'' = seg # rest"
  shows "try_block text =
     (case JSON_parse (trim (take i text)) of
        Inl e \<Rightarrow> Inl e
      | Inr v \<Rightarrow>
          if v = JNull then Inl TypeError
          else Inr \<lparr>isSerious = get_prop v ''isSerious'', explanation = Some (trim seg),
                    suggestImmediateAction = get_prop v ''suggestImmediateAction''\<rparr>)"
proof -
  have "split_str text ''---'' = take i text # split_str (drop (i + length ''---'') text) ''---''"
    using assms(1) by (intro split_str_first_separator) simp_all
  moreover have "i + length ''---'' = i + 3" by simp
  ultimately have "split_str text ''---'' = take i text # seg # rest"
    using assms(2) by (simp only:)
  then show ?thesis by (simp add: try_block_def split: sum.splits)
qed

text \<open>
  So whenever the first segment parses, the explanation of a delimited response is the
  trimmed text between the first delimiter and the next one (or the end of the text).
\<close>

lemma read_response_explanation:
  assumes "indexOf_str text ''---'' = Some i"
    and "JSON_parse (trim (take i text)) = Inr v" and "v \<noteq> JNull"
  shows "explanation (read_response text) = Some (trim (first_segment (drop (i + 3) text)))"
proof -
  obtain rest where "split_str (drop (i + 3) text) ''---'' = first_segment (drop (i + 3) text) # rest"
    using split_str_first_segment by blast
  from try_block_delimited [OF assms(1) this] assms(2,3)
  show ?thesis by (simp add: read_response_def)
qed

lemma get_prop_JNull: "get_prop JNull p = None"
  by (simp add: get_prop_def)

lemma read_response_delimited:
  assumes "indexOf_str (j @ ''---'' @ m) ''---'' = Some (length j)"
    and "\<not> includes_str m ''---''"
    and "JSON_parse (trim j) = Inr v"
    and "get_prop v ''isSerious'' = Some a"
    and "get_prop v ''suggestImmediateAction'' = Some b"
  shows "read_response (j @ ''---'' @ m) =
     \<lparr>isSerious = Some a, explanation = Some (trim m), suggestImmediateAction = Some b\<rparr>"
proof -
  from assms(4) have "v \<noteq> JNull" by (auto simp: get_prop_JNull)
  moreover have "split_str (drop (length j + 3) (j @ ''---'' @ m)) ''---'' = [m]"
    using assms(2) by (simp add: split_str_no_separator)
  ultimately show ?thesis
    using try_block_delimited [OF assms(1), of m "[]"] assms(3-5)
    by (simp add: read_response_def)
qed

lemma read_response_fallback:
  assumes "JSON_parse (trim (first_segment text)) = Inl e \<or>
           JSON_parse (trim (first_segment text)) = Inr JNull"
  shows "read_response text = catch_block text"
proof -
  from assms obtain e' where "try_block text = Inl e'"
    using try_block_throws_iff by blast
  then show ?thesis by (simp add: read_response_def)
qed

text \<open>
  Prose is not JSON: a text whose first character behind the white space cannot begin a
  JSON value is rejected, so a response in prose without delimiter takes the fallback.
\<close>

lemma trim_head_not_ws:
  assumes "trim s = c # cs"
  shows "\<not> is_js_ws c"
proof -
  define t where "t = dropWhile is_js_ws s"
  have "trim s = rev (dropWhile is_js_ws (rev t))" by (simp add: trim_def t_def)
  moreover obtain p where "rev t = p @ dropWhile is_js_ws (rev t)"
    by (metis takeWhile_dropWhile_id)
  then have "t = rev (dropWhile is_js_ws (rev t)) @ rev p"
    by (metis rev_append rev_rev_ident)
  ultimately have "t = (c # cs) @ rev p" using assms by simp
  then have "t \<noteq> []" and "hd t = c" by simp_all
  then show ?thesis unfolding t_def using hd_dropWhile by metis
qed

lemma lex_rejects_other_characters:
  assumes "\<not> is_json_ws c" and "c \<notin> set ''{}[]:,-0123456789tfn''" and "c \<noteq> CHR 0x22"
  shows "lex (c # cs) = None"
  using assms by (auto simp add: is_digit_def)

lemma JSON_parse_rejects_prose:
  assumes "trim text = c # cs" and "c \<notin> set ''{}[]:,-0123456789tfn''" and "c \<noteq> CHR 0x22"
  shows "JSON_parse (trim text) = Inl SyntaxError"
proof -
  from assms(1) have "\<not> is_js_ws c" by (rule trim_head_not_ws)
  then have "\<not> is_json_ws c" by (auto simp: is_js_ws_def is_json_ws_def)
  then have "lex (c # cs) = None" using assms(2,3) by (rule lex_rejects_other_characters)
  with assms(1) show ?thesis by (simp add: JSON_parse_def)
qed

lemma read_response_prose:
  assumes "\<not> includes_str text ''---''"
    and "trim text = c # cs" and "c \<notin> set ''{}[]:,-0123456789tfn''" and "c \<noteq> CHR 0x22"
  shows "read_response text = catch_block text"
proof -
  from assms(1) have "first_segment text = text"
    by (simp add: first_segment_def indexOf_str_None_iff [symmetric])
  with JSON_parse_rejects_prose [OF assms(2-4)] show ?thesis
    by (intro read_response_fallback) simp
qed

lemma catch_block_booleans:
  "is_boolean (isSerious (catch_block text))"
  "is_boolean (suggestImmediateAction (catch_block text))"
  "explanation (catch_block text) = Some text"
  by (simp_all add: catch_block_def)

subsection \<open>Symptom analysis: the response of the specification's round trip\<close>

lemma roundtrip_index:
  \<open>indexOf_str (''{"isSerious":true,"suggestImmediateAction":false}\<newline>'' @ ''---'' @
      ''\<newline># Likely Cause\<newline>...'') ''---'' =
    Some (length ''{"isSerious":true,"suggestImmediateAction":false}\<newline>'')\<close>
  by code_simp

lemma roundtrip_markdown: \<open>\<not> includes_str ''\<newline># Likely Cause\<newline>...'' ''---''\<close>
  by code_simp

lemma roundtrip_json:
  \<open>JSON_parse (trim ''{"isSerious":true,"suggestImmediateAction":false}\<newline>'') =
     Inr (JObject [(map of_char ''isSerious'', JBool True),
                   (map of_char ''suggestImmediateAction'', JBool False)])\<close>
  by code_simp

lemma roundtrip_props:
  \<open>get_prop (JObject [(map of_char ''isSerious'', JBool True),
                       (map of_char ''suggestImmediateAction'', JBool False)]) ''isSerious'' =
     Some (JBool True)\<close>
  \<open>get_prop (JObject [(map of_char ''isSerious'', JBool True),
                       (map of_char ''suggestImmediateAction'', JBool False)])
      ''suggestImmediateAction'' = Some (JBool False)\<close>
  by code_simp+

lemma roundtrip_trim:
  \<open>trim ''\<newline># Likely Cause\<newline>...'' = ''# Likely Cause\<newline>...''\<close>
  by code_simp

lemma roundtrip_nonblank: \<open>\<exists>c \<in> set ''\<newline># Likely Cause\<newline>...''. \<not> is_js_ws c\<close>
  by code_simp

subsection \<open>Symptom analysis: the claims on the result\<close>

text \<open>
  A response with one delimiter only: a JSON segment \<^verbatim>\<open>j\<close>, the delimiter and a markdown
  segment \<^verbatim>\<open>m\<close>, where the delimiter between them is the first in the text and \<^verbatim>\<open>m\<close>
  holds no other. If the trimmed \<^verbatim>\<open>j\<close> parses to a value whose properties \<^verbatim>\<open>isSerious\<close>
  and \<^verbatim>\<open>suggestImmediateAction\<close> are the booleans \<^verbatim>\<open>a\<close> and \<^verbatim>\<open>b\<close>, the result has
  \<^verbatim>\<open>a\<close> and \<^verbatim>\<open>b\<close>, and the trimmed \<^verbatim>\<open>m\<close> as the explanation.
\<close>

lemma analyzeSymptoms_single_delimiter:
  assumes "client (generate_request genAI input) = Inr (j @ ''---'' @ m)"
    and "indexOf_str (j @ ''---'' @ m) ''---'' = Some (length j)"
    and "\<not> includes_str m ''---''"
    and "JSON_parse (trim j) = Inr v"
    and "get_prop v ''isSerious'' = Some (JBool a)"
    and "get_prop v ''suggestImmediateAction'' = Some (JBool b)"
  shows "analyzeSymptoms genAI client input =
           Inr \<lparr>isSerious = Some (JBool a), explanation = Some (trim m),
                suggestImmediateAction = Some (JBool b)\<rparr>"
  using analyzeSymptoms_response [where client = client, OF assms(1)]
        read_response_delimited [OF assms(2-6)]
  by simp

text \<open>
  The mocked response of the specification's round-trip test, the three dots being the
  rest of its markdown.
\<close>

lemma analyzeSymptoms_single_delimiter_roundtrip:
  \<open>analyzeSymptoms (GoogleGenerativeAI ''key'')
     (respond_with ''{"isSerious":true,"suggestImmediateAction":false}\<newline>---\<newline># Likely Cause\<newline>...'')
     \<lparr>symptoms = ''headache and fever'', photoDataUri = None\<rparr> =
   Inr \<lparr>isSerious = Some (JBool True), explanation = Some ''# Likely Cause\<newline>...'',
        suggestImmediateAction = Some (JBool False)\<rparr>\<close>
proof -
  have \<open>respond_with
      (''{"isSerious":true,"suggestImmediateAction":false}\<newline>'' @ ''---'' @
       ''\<newline># Likely Cause\<newline>...'')
      (generate_request (GoogleGenerativeAI ''key'')
         \<lparr>symptoms = ''headache and fever'', photoDataUri = None\<rparr>) =
    Inr (''{"isSerious":true,"suggestImmediateAction":false}\<newline>'' @ ''---'' @
       ''\<newline># Likely Cause\<newline>...'')\<close>
    by (rule respond_with_response)
  from analyzeSymptoms_single_delimiter
         [where client = \<open>respond_with
            (''{"isSerious":true,"suggestImmediateAction":false}\<newline>'' @ ''---'' @
             ''\<newline># Likely Cause\<newline>...'')\<close>,
          OF this roundtrip_index roundtrip_markdown roundtrip_json roundtrip_props]
  show ?thesis by (simp add: roundtrip_trim)
qed

lemma two_section_response:
  \<open>indexOf_str ''{"isSerious":true,"suggestImmediateAction":false}\<newline>---\<newline># Likely Cause\<newline>Viral infection.\<newline>\<newline>---\<newline>\<newline># When to Seek Help\<newline>- Fever above 39C.'' ''---'' = Some 50\<close>
  \<open>JSON_parse (trim (take 50 ''{"isSerious":true,"suggestImmediateAction":false}\<newline>---\<newline># Likely Cause\<newline>Viral infection.\<newline>\<newline>---\<newline>\<newline># When to Seek Help\<newline>- Fever above 39C.'')) =
     Inr (JObject [(map of_char ''isSerious'', JBool True),
                   (map of_char ''suggestImmediateAction'', JBool False)])\<close>
  \<open>trim (drop (50 + 3) ''{"isSerious":true,"suggestImmediateAction":false}\<newline>---\<newline># Likely Cause\<newline>Viral infection.\<newline>\<newline>---\<newline>\<newline># When to Seek Help\<newline>- Fever above 39C.'') =
     ''# Likely Cause\<newline>Viral infection.\<newline>\<newline>---\<newline>\<newline># When to Seek Help\<newline>- Fever above 39C.''\<close>
  \<open>read_response ''{"isSerious":true,"suggestImmediateAction":false}\<newline>---\<newline># Likely Cause\<newline>Viral infection.\<newline>\<newline>---\<newline>\<newline># When to Seek Help\<newline>- Fever above 39C.'' =
     \<lparr>isSerious = Some (JBool True),
      explanation = Some ''# Likely Cause\<newline>Viral infection.'',
      suggestImmediateAction = Some (JBool False)\<rparr>\<close>
  by code_simp+

text \<open>
  Claim C1 says that for every response of the form JSON segment, delimiter, markdown
  segment, where the JSON segment parses to the two boolean flags, the result has the
  parsed flags and the trimmed markdown segment behind the delimiter as the explanation.
  The code does so only while the markdown holds no further delimiter. In the response
  below the first delimiter is at position 50, the segment before it parses to the flags
  true and false, and the trimmed text behind it has two sections with a horizontal
  rule between them; the flags returned are the parsed ones, but the explanation ends
  before the rule and the second section is lost.
\<close>

theorem analyzeSymptoms_roundtrip_loses_second_section:
  \<open>indexOf_str ''{"isSerious":true,"suggestImmediateAction":false}\<newline>---\<newline># Likely Cause\<newline>Viral infection.\<newline>\<newline>---\<newline>\<newline># When to Seek Help\<newline>- Fever above 39C.'' ''---'' = Some 50 \<and>
   JSON_parse (trim (take 50 ''{"isSerious":true,"suggestImmediateAction":false}\<newline>---\<newline># Likely Cause\<newline>Viral infection.\<newline>\<newline>---\<newline>\<newline># When to Seek Help\<newline>- Fever above 39C.'')) =
     Inr (JObject [(map of_char ''isSerious'', JBool True),
                   (map of_char ''suggestImmediateAction'', JBool False)]) \<and>
   trim (drop (50 + 3) ''{"isSerious":true,"suggestImmediateAction":false}\<newline>---\<newline># Likely Cause\<newline>Viral infection.\<newline>\<newline>---\<newline>\<newline># When to Seek Help\<newline>- Fever above 39C.'') =
     ''# Likely Cause\<newline>Viral infection.\<newline>\<newline>---\<newline>\<newline># When to Seek Help\<newline>- Fever above 39C.'' \<and>
   analyzeSymptoms (GoogleGenerativeAI ''key'')
     (respond_with ''{"isSerious":true,"suggestImmediateAction":false}\<newline>---\<newline># Likely Cause\<newline>Viral infection.\<newline>\<newline>---\<newline>\<newline># When to Seek Help\<newline>- Fever above 39C.'')
     \<lparr>symptoms = ''headache and fever'', photoDataUri = None\<rparr> =
   Inr \<lparr>isSerious = Some (JBool True),
        explanation = Some ''# Likely Cause\<newline>Viral infection.'',
        suggestImmediateAction = Some (JBool False)\<rparr>\<close>
  by (simp only: analyzeSymptoms_respond_with two_section_response)

text \<open>
  Claim C2, as amended. For every input and every response text: when \<^verbatim>\<open>JSON.parse\<close> of
  the trimmed first segment throws or gives \<^verbatim>\<open>null\<close>, the two flags of the result are
  booleans and the explanation is the response text, so the result is well typed unless
  the response is empty; when the response keeps to the format (a JSON segment with the
  two flags as booleans, one delimiter, a markdown segment with a character that is not
  white space), the result is well typed.
\<close>

theorem analyzeSymptoms_result_shape:
  assumes "client (generate_request genAI input) = Inr text"
  shows "(JSON_parse (trim (first_segment text)) = Inl e \<or>
          JSON_parse (trim (first_segment text)) = Inr JNull \<longrightarrow>
            (\<exists>out. analyzeSymptoms genAI client input = Inr out \<and>
                   is_boolean (isSerious out) \<and> is_boolean (suggestImmediateAction out) \<and>
                   explanation out = Some text \<and>
                   (text \<noteq> [] \<longrightarrow> well_typed_result out))) \<and>
         (text = j @ ''---'' @ m \<and> indexOf_str text ''---'' = Some (length j) \<and>
          \<not> includes_str m ''---'' \<and> JSON_parse (trim j) = Inr v \<and>
          get_prop v ''isSerious'' = Some (JBool a) \<and>
          get_prop v ''suggestImmediateAction'' = Some (JBool b) \<and>
          (\<exists>c \<in> set m. \<not> is_js_ws c) \<longrightarrow>
            (\<exists>out. analyzeSymptoms genAI client input = Inr out \<and> well_typed_result out))"
proof (intro conjI impI)
  assume "JSON_parse (trim (first_segment text)) = Inl e \<or>
          JSON_parse (trim (first_segment text)) = Inr JNull"
  then have "read_response text = catch_block text" by (rule read_response_fallback)
  then have "analyzeSymptoms genAI client input = Inr (catch_block text)"
    using analyzeSymptoms_response [where client = client, OF assms] by simp
  then show "\<exists>out. analyzeSymptoms genAI client input = Inr out \<and>
                   is_boolean (isSerious out) \<and> is_boolean (suggestImmediateAction out) \<and>
                   explanation out = Some text \<and>
                   (text \<noteq> [] \<longrightarrow> well_typed_result out)"
    by (simp add: catch_block_booleans well_typed_result_def)
next
  assume a: "text = j @ ''---'' @ m \<and> indexOf_str text ''---'' = Some (length j) \<and>
          \<not> includes_str m ''---'' \<and> JSON_parse (trim j) = Inr v \<and>
          get_prop v ''isSerious'' = Some (JBool a) \<and>
          get_prop v ''suggestImmediateAction'' = Some (JBool b) \<and>
          (\<exists>c \<in> set m. \<not> is_js_ws c)"
  then have t: "text = j @ ''---'' @ m" by blast
  from a have "indexOf_str (j @ ''---'' @ m) ''---'' = Some (length j)"
    and "\<not> includes_str m ''---''" and "JSON_parse (trim j) = Inr v"
    and "get_prop v ''isSerious'' = Some (JBool a)"
    and "get_prop v ''suggestImmediateAction'' = Some (JBool b)"
    unfolding t by blast+
  then have "read_response text =
      \<lparr>isSerious = Some (JBool a), explanation = Some (trim m),
       suggestImmediateAction = Some (JBool b)\<rparr>"
    unfolding t by (rule read_response_delimited)
  moreover from a have "trim m \<noteq> []" by (simp add: trim_Nil_iff)
  ultimately show "\<exists>out. analyzeSymptoms genAI client input = Inr out \<and> well_typed_result out"
    using analyzeSymptoms_response [where client = client, OF assms]
    by (simp add: well_typed_result_def)
qed

lemma prose_response_fails_to_parse:
  "JSON_parse (trim (first_segment ''I cannot assess this. Please seek immediate care.'')) =
     Inl SyntaxError"
  by code_simp

text \<open>A response in prose, and the response of the round-trip test.\<close>

theorem analyzeSymptoms_result_shape_witness:
  \<open>(\<exists>out. analyzeSymptoms (GoogleGenerativeAI ''key'')
            (respond_with ''I cannot assess this. Please seek immediate care.'')
            \<lparr>symptoms = ''persistent headache'', photoDataUri = None\<rparr> = Inr out \<and>
          well_typed_result out) \<and>
   (\<exists>out. analyzeSymptoms (GoogleGenerativeAI ''key'')
            (respond_with ''{"isSerious":true,"suggestImmediateAction":false}\<newline>---\<newline># Likely Cause\<newline>...'')
            \<lparr>symptoms = ''persistent headache'', photoDataUri = None\<rparr> = Inr out \<and>
          well_typed_result out)\<close>
proof
  have "respond_with ''I cannot assess this. Please seek immediate care.''
      (generate_request (GoogleGenerativeAI ''key'')
         \<lparr>symptoms = ''persistent headache'', photoDataUri = None\<rparr>) =
    Inr ''I cannot assess this. Please seek immediate care.''"
    by (rule respond_with_response)
  from analyzeSymptoms_result_shape
    [where client = "respond_with ''I cannot assess this. Please seek immediate care.''"
       and e = SyntaxError, OF this]
  show "\<exists>out. analyzeSymptoms (GoogleGenerativeAI ''key'')
            (respond_with ''I cannot assess this. Please seek immediate care.'')
            \<lparr>symptoms = ''persistent headache'', photoDataUri = None\<rparr> = Inr out \<and>
          well_typed_result out"
    using prose_response_fails_to_parse by auto
next
  have \<open>respond_with
      (''{"isSerious":true,"suggestImmediateAction":false}\<newline>'' @ ''---'' @
       ''\<newline># Likely Cause\<newline>...'')
      (generate_request (GoogleGenerativeAI ''key'')
         \<lparr>symptoms = ''persistent headache'', photoDataUri = None\<rparr>) =
    Inr (''{"isSerious":true,"suggestImmediateAction":false}\<newline>'' @ ''---'' @
       ''\<newline># Likely Cause\<newline>...'')\<close>
    by (rule respond_with_response)
  from analyzeSymptoms_result_shape
    [where client = \<open>respond_with
            (''{"isSerious":true,"suggestImmediateAction":false}\<newline>'' @ ''---'' @
             ''\<newline># Likely Cause\<newline>...'')\<close>
       and j = \<open>''{"isSerious":true,"suggestImmediateAction":false}\<newline>''\<close>
       and m = \<open>''\<newline># Likely Cause\<newline>...''\<close>
       and a = True and b = False, OF this]
    roundtrip_index roundtrip_markdown roundtrip_json roundtrip_props roundtrip_nonblank
  have \<open>\<exists>out. analyzeSymptoms (GoogleGenerativeAI ''key'')
          (respond_with
            (''{"isSerious":true,"suggestImmediateAction":false}\<newline>'' @ ''---'' @
             ''\<newline># Likely Cause\<newline>...''))
          \<lparr>symptoms = ''persistent headache'', photoDataUri = None\<rparr> = Inr out \<and>
        well_typed_result out\<close>
    by blast
  then show \<open>\<exists>out. analyzeSymptoms (GoogleGenerativeAI ''key'')
            (respond_with ''{"isSerious":true,"suggestImmediateAction":false}\<newline>---\<newline># Likely Cause\<newline>...'')
            \<lparr>symptoms = ''persistent headache'', photoDataUri = None\<rparr> = Inr out \<and>
          well_typed_result out\<close>
    by simp
qed

lemma ill_typed_responses:
  \<open>read_response ''{"isSerious":"yes"}\<newline>---\<newline>'' =
     \<lparr>isSerious = Some (JString (map of_char ''yes'')), explanation = Some [],
      suggestImmediateAction = None\<rparr>\<close>
  \<open>read_response [] =
     \<lparr>isSerious = Some (JBool False), explanation = Some [],
      suggestImmediateAction = Some (JBool False)\<rparr>\<close>
  by code_simp+

text \<open>
  Claim C2 as stated fails. For a response whose JSON segment has the string "yes" as
  \<^verbatim>\<open>isSerious\<close> and nothing else, and whose markdown segment is blank, the result has a
  string, \<^verbatim>\<open>undefined\<close> and the empty string where the claim has two booleans and a
  non-empty string. For the empty response the fallback returns the empty explanation.
\<close>

theorem analyzeSymptoms_result_shape_counterexample:
  \<open>analyzeSymptoms (GoogleGenerativeAI ''key'')
     (respond_with ''{"isSerious":"yes"}\<newline>---\<newline>'')
     \<lparr>symptoms = ''persistent headache'', photoDataUri = None\<rparr> =
   Inr \<lparr>isSerious = Some (JString (map of_char ''yes'')), explanation = Some [],
        suggestImmediateAction = None\<rparr> \<and>
   \<not> is_boolean (Some (JString (map of_char ''yes''))) \<and>
   \<not> is_boolean None \<and>
   \<not> is_nonempty_string (Some []) \<and>
   analyzeSymptoms (GoogleGenerativeAI ''key'') (respond_with [])
     \<lparr>symptoms = ''persistent headache'', photoDataUri = None\<rparr> =
   Inr \<lparr>isSerious = Some (JBool False), explanation = Some [],
        suggestImmediateAction = Some (JBool False)\<rparr>\<close>
  by (simp only: analyzeSymptoms_respond_with ill_typed_responses) simp

text \<open>
  The fallback where it is taken. Whenever \<^verbatim>\<open>JSON.parse\<close> of the trimmed first segment
  throws, or gives \<^verbatim>\<open>null\<close>, the result is the heuristic one: \<^verbatim>\<open>isSerious\<close> is true iff
  the lower-cased response contains "serious" or "severe", \<^verbatim>\<open>suggestImmediateAction\<close> is
  true iff it contains "immediate" or "emergency", and the explanation is the response.
  So for a response without delimiter that is not valid JSON and contains "emergency",
  \<^verbatim>\<open>suggestImmediateAction\<close> is true.
\<close>

lemma analyzeSymptoms_fallback_on_throw:
  assumes "client (generate_request genAI input) = Inr text"
  shows "(JSON_parse (trim (first_segment text)) = Inl e \<or>
          JSON_parse (trim (first_segment text)) = Inr JNull \<longrightarrow>
            analyzeSymptoms genAI client input =
              Inr \<lparr>isSerious = Some (JBool (includes_str (toLowerCase text) ''serious'' \<or>
                                            includes_str (toLowerCase text) ''severe'')),
                   explanation = Some text,
                   suggestImmediateAction =
                     Some (JBool (includes_str (toLowerCase text) ''immediate'' \<or>
                                  includes_str (toLowerCase text) ''emergency''))\<rparr>) \<and>
         (\<not> includes_str text ''---'' \<and> JSON_parse (trim text) = Inl e \<and>
          includes_str (toLowerCase text) ''emergency'' \<longrightarrow>
            (\<exists>out. analyzeSymptoms genAI client input = Inr out \<and>
                   suggestImmediateAction out = Some (JBool True)))"
proof (intro conjI impI)
  assume "JSON_parse (trim (first_segment text)) = Inl e \<or>
          JSON_parse (trim (first_segment text)) = Inr JNull"
  then have "read_response text = catch_block text" by (rule read_response_fallback)
  then show "analyzeSymptoms genAI client input =
              Inr \<lparr>isSerious = Some (JBool (includes_str (toLowerCase text) ''serious'' \<or>
                                            includes_str (toLowerCase text) ''severe'')),
                   explanation = Some text,
                   suggestImmediateAction =
                     Some (JBool (includes_str (toLowerCase text) ''immediate'' \<or>
                                  includes_str (toLowerCase text) ''emergency''))\<rparr>"
    using analyzeSymptoms_response [where client = client, OF assms]
    by (simp add: catch_block_def)
next
  assume a: "\<not> includes_str text ''---'' \<and> JSON_parse (trim text) = Inl e \<and>
          includes_str (toLowerCase text) ''emergency''"
  then have "first_segment text = text"
    by (simp add: first_segment_def indexOf_str_None_iff [symmetric])
  with a have "read_response text = catch_block text"
    by (intro read_response_fallback) simp
  with a show "\<exists>out. analyzeSymptoms genAI client input = Inr out \<and>
                   suggestImmediateAction out = Some (JBool True)"
    using analyzeSymptoms_response [where client = client, OF assms]
    by (simp add: catch_block_def)
qed

lemma prose_emergency_response:
  "JSON_parse (trim (first_segment ''Severe chest pain can be an emergency.'')) = Inl SyntaxError"
  "\<not> includes_str ''Severe chest pain can be an emergency.'' ''---''"
  "JSON_parse (trim ''Severe chest pain can be an emergency.'') = Inl SyntaxError"
  "includes_str (toLowerCase ''Severe chest pain can be an emergency.'') ''emergency''"
  "includes_str (toLowerCase ''Severe chest pain can be an emergency.'') ''severe''"
  by code_simp+

text \<open>A response in prose, without delimiter, that contains "emergency".\<close>

lemma analyzeSymptoms_fallback_on_throw_prose:
  "JSON_parse (trim (first_segment ''Severe chest pain can be an emergency.'')) = Inl SyntaxError \<and>
   \<not> includes_str ''Severe chest pain can be an emergency.'' ''---'' \<and>
   includes_str (toLowerCase ''Severe chest pain can be an emergency.'') ''emergency'' \<and>
   analyzeSymptoms (GoogleGenerativeAI ''key'')
     (respond_with ''Severe chest pain can be an emergency.'')
     \<lparr>symptoms = ''crushing chest pain'', photoDataUri = None\<rparr> =
   Inr \<lparr>isSerious = Some (JBool True),
        explanation = Some ''Severe chest pain can be an emergency.'',
        suggestImmediateAction = Some (JBool True)\<rparr>"
proof -
  have "respond_with ''Severe chest pain can be an emergency.''
      (generate_request (GoogleGenerativeAI ''key'')
         \<lparr>symptoms = ''crushing chest pain'', photoDataUri = None\<rparr>) =
    Inr ''Severe chest pain can be an emergency.''"
    by (rule respond_with_response)
  from analyzeSymptoms_fallback_on_throw
    [where client = "respond_with ''Severe chest pain can be an emergency.''"
       and e = SyntaxError, OF this]
  show ?thesis using prose_emergency_response by simp
qed

lemma json_only_response:
  \<open>\<not> includes_str ''{"isSerious":true,"suggestImmediateAction":false,"explanation":"Not an emergency, but see your GP this week."}'' ''---''\<close>
  \<open>includes_str (toLowerCase ''{"isSerious":true,"suggestImmediateAction":false,"explanation":"Not an emergency, but see your GP this week."}'') ''emergency''\<close>
  \<open>read_response ''{"isSerious":true,"suggestImmediateAction":false,"explanation":"Not an emergency, but see your GP this week."}'' =
     \<lparr>isSerious = Some (JBool True), explanation = None,
      suggestImmediateAction = Some (JBool False)\<rparr>\<close>
  \<open>suggestImmediateAction (catch_block ''{"isSerious":true,"suggestImmediateAction":false,"explanation":"Not an emergency, but see your GP this week."}'') = Some (JBool True)\<close>
  by code_simp+

text \<open>
  Claim C3 says that whenever the JSON segment cannot be read as expected, a missing
  delimiter and an unexpected shape included, the result is that of the keyword heuristic
  with the raw response as the explanation, so that a response without delimiter that
  contains "emergency" gets \<^verbatim>\<open>suggestImmediateAction\<close> true. The code takes the fallback
  only when the \<^verbatim>\<open>try\<close> block throws. The response below is one JSON object, with the
  explanation as a third member: it has no delimiter and contains "emergency", and the
  heuristic would give \<^verbatim>\<open>suggestImmediateAction\<close> true; but it parses, the fallback is not
  taken, and the result has the false of the object and \<^verbatim>\<open>undefined\<close> as the explanation,
  which the declared result type does not allow.
\<close>

theorem analyzeSymptoms_parsed_json_skips_fallback:
  \<open>\<not> includes_str ''{"isSerious":true,"suggestImmediateAction":false,"explanation":"Not an emergency, but see your GP this week."}'' ''---'' \<and>
   includes_str (toLowerCase ''{"isSerious":true,"suggestImmediateAction":false,"explanation":"Not an emergency, but see your GP this week."}'') ''emergency'' \<and>
   suggestImmediateAction (catch_block ''{"isSerious":true,"suggestImmediateAction":false,"explanation":"Not an emergency, but see your GP this week."}'') = Some (JBool True) \<and>
   analyzeSymptoms (GoogleGenerativeAI ''key'')
     (respond_with ''{"isSerious":true,"suggestImmediateAction":false,"explanation":"Not an emergency, but see your GP this week."}'')
     \<lparr>symptoms = ''sore throat for three days'', photoDataUri = None\<rparr> =
   Inr \<lparr>isSerious = Some (JBool True), explanation = None,
        suggestImmediateAction = Some (JBool False)\<rparr>\<close>
  by (simp only: analyzeSymptoms_respond_with json_only_response) simp

lemma horizontal_rule_response:
  \<open>indexOf_str ''{"isSerious":false,"suggestImmediateAction":false}\<newline>---\<newline># Likely Cause\<newline>Tension headache.\<newline>\<newline>---\<newline>\<newline># What You Should Do\<newline>- Rest and drink water.'' ''---'' = Some 51\<close>
  \<open>read_response ''{"isSerious":false,"suggestImmediateAction":false}\<newline>---\<newline># Likely Cause\<newline>Tension headache.\<newline>\<newline>---\<newline>\<newline># What You Should Do\<newline>- Rest and drink water.'' =
     \<lparr>isSerious = Some (JBool False),
      explanation = Some ''# Likely Cause\<newline>Tension headache.'',
      suggestImmediateAction = Some (JBool False)\<rparr>\<close>
  \<open>trim (drop (51 + 3) ''{"isSerious":false,"suggestImmediateAction":false}\<newline>---\<newline># Likely Cause\<newline>Tension headache.\<newline>\<newline>---\<newline>\<newline># What You Should Do\<newline>- Rest and drink water.'') =
     ''# Likely Cause\<newline>Tension headache.\<newline>\<newline>---\<newline>\<newline># What You Should Do\<newline>- Rest and drink water.''\<close>
  by code_simp+

text \<open>
  Claim C4 says that the response is split at the first delimiter only, so that the
  explanation is all of the trimmed text behind it, later delimiters included. The code
  splits at every delimiter and keeps the second part: for a response whose markdown has a
  horizontal rule, the first delimiter is at position 51, the trimmed text behind it has
  both sections, and the explanation returned ends before the rule.
\<close>

theorem analyzeSymptoms_cuts_at_second_delimiter:
  \<open>indexOf_str ''{"isSerious":false,"suggestImmediateAction":false}\<newline>---\<newline># Likely Cause\<newline>Tension headache.\<newline>\<newline>---\<newline>\<newline># What You Should Do\<newline>- Rest and drink water.'' ''---'' = Some 51 \<and>
   trim (drop (51 + 3) ''{"isSerious":false,"suggestImmediateAction":false}\<newline>---\<newline># Likely Cause\<newline>Tension headache.\<newline>\<newline>---\<newline>\<newline># What You Should Do\<newline>- Rest and drink water.'') =
     ''# Likely Cause\<newline>Tension headache.\<newline>\<newline>---\<newline>\<newline># What You Should Do\<newline>- Rest and drink water.'' \<and>
   analyzeSymptoms (GoogleGenerativeAI ''key'')
     (respond_with ''{"isSerious":false,"suggestImmediateAction":false}\<newline>---\<newline># Likely Cause\<newline>Tension headache.\<newline>\<newline>---\<newline>\<newline># What You Should Do\<newline>- Rest and drink water.'')
     \<lparr>symptoms = ''dull headache since this morning'', photoDataUri = None\<rparr> =
   Inr \<lparr>isSerious = Some (JBool False),
        explanation = Some ''# Likely Cause\<newline>Tension headache.'',
        suggestImmediateAction = Some (JBool False)\<rparr>\<close>
  by (simp only: analyzeSymptoms_respond_with horizontal_rule_response)

text \<open>
  Claim C10. For a response without delimiter whose trimmed text parses to a JSON object,
  the \<^verbatim>\<open>try\<close> block completes: the flags are the two properties of the object, the
  explanation is \<^verbatim>\<open>undefined\<close>, and the result is not the one of the keyword fallback,
  whose explanation is the response text.
\<close>

theorem analyzeSymptoms_undelimited_json:
  assumes "client (generate_request genAI input) = Inr text"
    and "\<not> includes_str text ''---''"
    and "JSON_parse (trim text) = Inr (JObject ms)"
  shows "analyzeSymptoms genAI client input =
           Inr \<lparr>isSerious = get_prop (JObject ms) ''isSerious'', explanation = None,
                suggestImmediateAction = get_prop (JObject ms) ''suggestImmediateAction''\<rparr> \<and>
         analyzeSymptoms genAI client input \<noteq> Inr (catch_block text)"
proof -
  have "try_block text =
      Inr \<lparr>isSerious = get_prop (JObject ms) ''isSerious'', explanation = None,
           suggestImmediateAction = get_prop (JObject ms) ''suggestImmediateAction''\<rparr>"
    using assms(2,3) by (simp add: try_block_undelimited)
  then have "read_response text =
      \<lparr>isSerious = get_prop (JObject ms) ''isSerious'', explanation = None,
       suggestImmediateAction = get_prop (JObject ms) ''suggestImmediateAction''\<rparr>"
    by (simp add: read_response_def)
  moreover from this have "read_response text \<noteq> catch_block text"
    by (auto simp: catch_block_def)
  ultimately show ?thesis
    using analyzeSymptoms_response [where client = client, OF assms(1)] by simp
qed

lemma flags_only_response:
  \<open>\<not> includes_str ''{"isSerious":true,"suggestImmediateAction":false}'' ''---''\<close>
  \<open>JSON_parse (trim ''{"isSerious":true,"suggestImmediateAction":false}'') =
     Inr (JObject [(map of_char ''isSerious'', JBool True),
                   (map of_char ''suggestImmediateAction'', JBool False)])\<close>
  by code_simp+

text \<open>The JSON object of the round-trip test alone, without delimiter and markdown.\<close>

theorem analyzeSymptoms_undelimited_json_witness:
  \<open>analyzeSymptoms (GoogleGenerativeAI ''key'')
     (respond_with ''{"isSerious":true,"suggestImmediateAction":false}'')
     \<lparr>symptoms = ''headache and fever'', photoDataUri = None\<rparr> =
   Inr \<lparr>isSerious = Some (JBool True), explanation = None,
        suggestImmediateAction = Some (JBool False)\<rparr> \<and>
   analyzeSymptoms (GoogleGenerativeAI ''key'')
     (respond_with ''{"isSerious":true,"suggestImmediateAction":false}'')
     \<lparr>symptoms = ''headache and fever'', photoDataUri = None\<rparr> \<noteq>
   Inr (catch_block ''{"isSerious":true,"suggestImmediateAction":false}'')\<close>
proof -
  have \<open>respond_with ''{"isSerious":true,"suggestImmediateAction":false}''
      (generate_request (GoogleGenerativeAI ''key'')
         \<lparr>symptoms = ''headache and fever'', photoDataUri = None\<rparr>) =
    Inr ''{"isSerious":true,"suggestImmediateAction":false}''\<close>
    by (rule respond_with_response)
  from analyzeSymptoms_undelimited_json
    [where client = \<open>respond_with ''{"isSerious":true,"suggestImmediateAction":false}''\<close>,
     OF this flags_only_response]
  show ?thesis unfolding roundtrip_props .
qed

subsection \<open>JSON.parse on examples\<close>

lemma JSON_parse_accepts:
  \<open>JSON_parse '' { "a" : [1, -2.5e3, {"b": null}, [], {}], "c": "x y" } '' =
     Inr (JObject [(map of_char ''a'',
                    JArray [JNumber ''1'', JNumber ''-2.5e3'',
                            JObject [(map of_char ''b'', JNull)], JArray [], JObject []]),
                   (map of_char ''c'', JString (map of_char ''x y''))])\<close>
  \<open>JSON_parse ''null'' = Inr JNull\<close>
  \<open>JSON_parse ''"emergency"'' = Inr (JString (map of_char ''emergency''))\<close>
  \<open>JSON_parse ''{"a":1,"a":2}'' =
     Inr (JObject [(map of_char ''a'', JNumber ''1''), (map of_char ''a'', JNumber ''2'')])\<close>
  \<open>get_prop (JObject [(map of_char ''a'', JNumber ''1''), (map of_char ''a'', JNumber ''2'')]) ''a'' =
     Some (JNumber ''2'')\<close>
  \<open>JSON_parse (''"a'' @ [CHR 0x5C] @ ''u0041'' @ [CHR 0x5C] @ ''n"'') = Inr (JString [97, 65, 10])\<close>
  by code_simp+

lemma JSON_parse_rejects:
  \<open>JSON_parse [] = Inl SyntaxError\<close>
  \<open>JSON_parse ''undefined'' = Inl SyntaxError\<close>
  \<open>JSON_parse ''{'' = Inl SyntaxError\<close>
  \<open>JSON_parse ''[1,]'' = Inl SyntaxError\<close>
  \<open>JSON_parse ''{"a":1,}'' = Inl SyntaxError\<close>
  \<open>JSON_parse ''{"a" 1}'' = Inl SyntaxError\<close>
  \<open>JSON_parse ''[1 2]'' = Inl SyntaxError\<close>
  \<open>JSON_parse ''01'' = Inl SyntaxError\<close>
  \<open>JSON_parse ''1.'' = Inl SyntaxError\<close>
  \<open>JSON_parse ''true false'' = Inl SyntaxError\<close>
  \<open>JSON_parse ''{"a":1}}'' = Inl SyntaxError\<close>
  \<open>JSON_parse ''{a:1}'' = Inl SyntaxError\<close>
  \<open>JSON_parse (''"a'' @ [CHR 0x0A] @ ''"'') = Inl SyntaxError\<close>
  \<open>JSON_parse ([CHR 0xA0] @ ''1'') = Inl SyntaxError\<close>
  by code_simp+

end
